theory Spec2Isabelle
  imports Main "HOL-Library.Word" "HOL-Library.Sublist"
begin

section \<open>Data model\<close>

text \<open>
  A Go \<^verbatim>\<open>string\<close> is a sequence of bytes, here a \<^typ>\<open>string\<close> (a list of
  8-bit characters). Go's \<^verbatim>\<open>int\<close> and \<^verbatim>\<open>uintptr\<close> are taken at their 64-bit
  width; \<^verbatim>\<open>int\<close> values are read with \<^const>\<open>sint\<close>.
\<close>

type_synonym go_int = "64 word"
type_synonym uintptr = "64 word"

text \<open>\<^verbatim>\<open>type Trace struct { Index int; Function string; File string; Line int }\<close>\<close>

record Trace =
  Index :: go_int
  Function :: string
  File :: string
  Line :: go_int

text \<open>
  \<^verbatim>\<open>type StackTrace []Trace\<close>. \<^term>\<open>None\<close> is the nil slice, \<open>Some []\<close> an empty slice
  that is not nil; \<open>append_to\<close> is the built-in \<^verbatim>\<open>append\<close> of one element.
\<close>

type_synonym StackTrace = "Trace list option"

definition append_to :: "'a list option \<Rightarrow> 'a \<Rightarrow> 'a list option" where
  "append_to s x = Some ((case s of None \<Rightarrow> [] | Some xs \<Rightarrow> xs) @ [x])"

text \<open>
  \<^verbatim>\<open>type Error struct\<close> and the values of the interface \<^verbatim>\<open>error\<close>. An interface
  value is \<^term>\<open>None\<close> (nil), or it holds a pointer to an Error Value (\<open>AppError\<close>, a
  non-nil \<^verbatim>\<open>*Error\<close>), or it holds a nil \<^verbatim>\<open>*Error\<close> pointer (\<open>NilError\<close>: such an
  interface is not nil), or it holds an error of any other dynamic type (\<open>Foreign\<close>),
  which is represented by the string its \<^verbatim>\<open>Error()\<close> method returns (the method of a
  foreign error is taken to return, and to return the same string at every call);
  \<^verbatim>\<open>errors.New(s)\<close> is \<open>Foreign s\<close>. The fields keep the names of the Go struct. A
  cause is held as the value it points to, so that a chain of causes is finite, as is
  every chain that the constructors and the decoder build: there a cause exists before
  the value that wraps it. The slice \<^verbatim>\<open>pcs\<close> is only stored and handed out, so it is the
  list of its elements.
\<close>

datatype Error = Error
    (Code: string) (Message: string) (Operation: string) (Err: "goerror option")
    (Additional: StackTrace) (Internal: bool) (fileLine: string) (pcs: "uintptr list")
and goerror = AppError Error | NilError | Foreign string

text \<open>
  A \<^verbatim>\<open>*Error\<close> is an \<^typ>\<open>Error option\<close>, \<^term>\<open>None\<close> the nil pointer. Where a \<^verbatim>\<open>*Error\<close>
  is passed or assigned as an \<^verbatim>\<open>error\<close>, Go wraps the pointer in an interface; the nil
  pointer gives an interface that holds it, not the nil interface.
\<close>

definition as_error :: "Error option \<Rightarrow> goerror option" where
  "as_error p = (case p of None \<Rightarrow> Some NilError | Some e \<Rightarrow> Some (AppError e))"

text \<open>
  Reading a field through a nil \<^verbatim>\<open>*Error\<close> is a run-time panic; a function that can
  panic returns a sum, with \<open>Inl\<close> the panic and \<open>Inr\<close> what it returns.
\<close>

datatype panic = NilDereference

text \<open>The zero value \<^verbatim>\<open>Error{}\<close>, a fresh instance.\<close>

definition zeroError :: Error where
  "zeroError = Error '''' '''' '''' None None False '''' []"

definition set_Internal :: "bool \<Rightarrow> Error \<Rightarrow> Error" where
  "set_Internal b e =
     Error (Code e) (Message e) (Operation e) (Err e) (Additional e) b (fileLine e) (pcs e)"

text \<open>The application error codes.\<close>

definition CONFLICT :: string where "CONFLICT = ''conflict''"
definition INTERNAL :: string where "INTERNAL = ''internal''"
definition INVALID :: string where "INVALID = ''invalid''"
definition NOTFOUND :: string where "NOTFOUND = ''not_found''"
definition UNKNOWN :: string where "UNKNOWN = ''unknown''"
definition MAXIMUMATTEMPTS :: string where "MAXIMUMATTEMPTS = ''maximum_attempts''"
definition EXPIRED :: string where "EXPIRED = ''expired''"

text \<open>
  The two package variables \<^verbatim>\<open>DefaultCode\<close> and \<^verbatim>\<open>GlobalError\<close> are mutable, so
  every function that reads one takes the current values as an argument.
\<close>

record globals =
  DefaultCode :: string
  GlobalError :: string

definition init_globals :: globals where
  "init_globals = \<lparr>DefaultCode = INTERNAL, GlobalError = ''An error has occurred.''\<rparr>"

section \<open>Construction\<close>

text \<open>
  What \<^verbatim>\<open>newError\<close> asks of package \<^verbatim>\<open>runtime\<close>, as the call stack stands when it
  runs: \<open>Caller rt skip\<close> is \<^verbatim>\<open>runtime.Caller(skip)\<close>, \<open>Callers rt skip\<close> the return
  addresses \<^verbatim>\<open>runtime.Callers\<close> finds from depth \<open>skip\<close> on, and \<open>FuncName\<close> and
  \<open>FuncFileLine\<close> are \<^verbatim>\<open>runtime.FuncForPC(pc).Name()\<close> and \<^verbatim>\<open>.FileLine(pc)\<close>.
\<close>

record runtime =
  Caller :: "nat \<Rightarrow> uintptr \<times> string \<times> go_int \<times> bool"
  Callers :: "nat \<Rightarrow> uintptr list"
  FuncName :: "uintptr \<Rightarrow> string"
  FuncFileLine :: "uintptr \<Rightarrow> string \<times> go_int"

text \<open>\<^verbatim>\<open>runtime.Callers(skip, pcs)\<close> overwrites a prefix of the slice it is given.\<close>

definition Callers_into :: "runtime \<Rightarrow> nat \<Rightarrow> uintptr list \<Rightarrow> uintptr list" where
  "Callers_into rt skip buf =
     (let found = take (length buf) (Callers rt skip) in found @ drop (length found) buf)"

text \<open>\<^verbatim>\<open>strconv.Itoa\<close>: the decimal digits, with a sign for a negative number.\<close>

fun digits :: "nat \<Rightarrow> string" where
  "digits n =
     (if n < 10 then [char_of (48 + n)] else digits (n div 10) @ [char_of (48 + n mod 10)])"

definition Itoa :: "go_int \<Rightarrow> string" where
  "Itoa i = (if sint i < 0 then ''-'' @ digits (nat (- sint i)) else digits (nat (sint i)))"

text \<open>
  The loop \<^verbatim>\<open>for i, pc := range pcs { stackTrace = append(stackTrace, Trace{...}) }\<close>,
  with the index and the slice built so far as arguments.
\<close>

fun frames :: "runtime \<Rightarrow> nat \<Rightarrow> uintptr list \<Rightarrow> StackTrace \<Rightarrow> StackTrace" where
  "frames rt i [] stackTrace = stackTrace"
| "frames rt i (pc # rest) stackTrace =
     (let (f, l) = FuncFileLine rt pc
      in frames rt (Suc i) rest
           (append_to stackTrace
              \<lparr>Index = of_nat i, Function = FuncName rt pc, File = f, Line = l\<rparr>))"

definition newError ::
  "runtime \<Rightarrow> goerror option \<Rightarrow> string \<Rightarrow> string \<Rightarrow> string \<Rightarrow> Error option" where
  "newError rt err message code op =
     (let (pc, file, line, ok) = Caller rt 2;
          pcs = Callers_into rt 2 (replicate 2 0);
          stackTrace = frames rt 0 pcs None;
          e = Error code message op err stackTrace False (file @ '':'' @ Itoa line) pcs;
          e = (if code = INTERNAL then set_Internal True e else e)
      in Some e)"

definition NewInternal :: "runtime \<Rightarrow> goerror option \<Rightarrow> string \<Rightarrow> string \<Rightarrow> Error option" where
  "NewInternal rt err message op = newError rt err message INTERNAL op"

definition NewConflict :: "runtime \<Rightarrow> goerror option \<Rightarrow> string \<Rightarrow> string \<Rightarrow> Error option" where
  "NewConflict rt err message op = newError rt err message CONFLICT op"

definition NewInvalid :: "runtime \<Rightarrow> goerror option \<Rightarrow> string \<Rightarrow> string \<Rightarrow> Error option" where
  "NewInvalid rt err message op = newError rt err message INVALID op"

definition NewNotFound :: "runtime \<Rightarrow> goerror option \<Rightarrow> string \<Rightarrow> string \<Rightarrow> Error option" where
  "NewNotFound rt err message op = newError rt err message NOTFOUND op"

definition NewUnknown :: "runtime \<Rightarrow> goerror option \<Rightarrow> string \<Rightarrow> string \<Rightarrow> Error option" where
  "NewUnknown rt err message op = newError rt err message UNKNOWN op"

definition NewMaximumAttempts ::
  "runtime \<Rightarrow> goerror option \<Rightarrow> string \<Rightarrow> string \<Rightarrow> Error option" where
  "NewMaximumAttempts rt err message op = newError rt err message MAXIMUMATTEMPTS op"

definition NewExpired :: "runtime \<Rightarrow> goerror option \<Rightarrow> string \<Rightarrow> string \<Rightarrow> Error option" where
  "NewExpired rt err message op = newError rt err message EXPIRED op"

definition NewE ::
  "globals \<Rightarrow> runtime \<Rightarrow> goerror option \<Rightarrow> string \<Rightarrow> string \<Rightarrow> Error option" where
  "NewE g rt err message op = newError rt err message (DefaultCode g) op"

text \<open>
  \<^verbatim>\<open>ErrorF\<close> formats its message with \<^verbatim>\<open>fmt.Sprintf\<close>, which is taken as the
  argument \<open>Sprintf\<close>.
\<close>

definition ErrorF ::
  "(string \<Rightarrow> 'a list \<Rightarrow> string) \<Rightarrow> globals \<Rightarrow> runtime \<Rightarrow> goerror option \<Rightarrow> string \<Rightarrow> string
     \<Rightarrow> 'a list \<Rightarrow> Error option" where
  "ErrorF Sprintf g rt err op format args = NewE g rt err (Sprintf format args) op"

definition Wrap ::
  "globals \<Rightarrow> runtime \<Rightarrow> goerror option \<Rightarrow> string \<Rightarrow> string \<Rightarrow> Error option" where
  "Wrap g rt err message op = (if err = None then None else NewE g rt err message op)"

section \<open>Chain traversal\<close>

text \<open>
  \<^verbatim>\<open>func Code(err error) string\<close> and \<^verbatim>\<open>func Message(err error) string\<close>; the
  struct fields have the plain names, so the functions carry a suffix. For an interface
  that holds a nil \<^verbatim>\<open>*Error\<close> the comparison \<^verbatim>\<open>err == nil\<close> is false and the type
  assertion \<^verbatim>\<open>err.(*Error)\<close> succeeds with the nil pointer, so that \<^verbatim>\<open>e.Code\<close> and
  \<^verbatim>\<open>e.Message\<close> panic.
\<close>

fun Code_fn :: "goerror option \<Rightarrow> panic + string" where
  "Code_fn None = Inr ''''"
| "Code_fn (Some NilError) = Inl NilDereference"
| "Code_fn (Some (AppError (Error code message op err additional internal fl ps))) =
     (if code \<noteq> '''' then Inr code
      else if err \<noteq> None then Code_fn err
      else Inr INTERNAL)"
| "Code_fn (Some (Foreign s)) = Inr INTERNAL"

fun Message_fn :: "globals \<Rightarrow> goerror option \<Rightarrow> panic + string" where
  "Message_fn g None = Inr ''''"
| "Message_fn g (Some NilError) = Inl NilDereference"
| "Message_fn g (Some (AppError (Error code message op err additional internal fl ps))) =
     (if message \<noteq> '''' then Inr message
      else if err \<noteq> None then Message_fn g err
      else Inr (GlobalError g))"
| "Message_fn g (Some (Foreign s)) = Inr (GlobalError g)"

text \<open>
  The Error Values of a chain, outermost first: the one the interface holds, its cause
  when that is an Error Value, and so on; and whether the chain ends in an interface that
  holds a nil \<^verbatim>\<open>*Error\<close>. Used to state what the traversals find.
\<close>

fun chain :: "goerror option \<Rightarrow> Error list" where
  "chain None = []"
| "chain (Some NilError) = []"
| "chain (Some (Foreign s)) = []"
| "chain (Some (AppError (Error code message op err additional internal fl ps))) =
     Error code message op err additional internal fl ps # chain err"

fun ends_in_nil_pointer :: "goerror option \<Rightarrow> bool" where
  "ends_in_nil_pointer None = False"
| "ends_in_nil_pointer (Some NilError) = True"
| "ends_in_nil_pointer (Some (Foreign s)) = False"
| "ends_in_nil_pointer (Some (AppError (Error code message op err additional internal fl ps))) =
     ends_in_nil_pointer err"

section \<open>HTTP mapper\<close>

definition HTTPStatusCode :: "Error \<Rightarrow> int" where
  "HTTPStatusCode e =
     (let status = 500 in
      if Code e = CONFLICT then 409
      else if Code e = INVALID then 400
      else if Code e = NOTFOUND then 404
      else if Code e = EXPIRED then 402
      else if Code e = MAXIMUMATTEMPTS then 429
      else status)"

section \<open>String rendering\<close>

text \<open>
  Modelled from the documentation of package \<^verbatim>\<open>strings\<close>: \<^verbatim>\<open>TrimSpace\<close> removes all
  leading and trailing white space, as defined by Unicode, and \<^verbatim>\<open>TrimSuffix\<close> removes
  one trailing occurrence of the suffix. \<open>spaceRunes\<close> lists the UTF-8 encodings of the
  runes for which \<^verbatim>\<open>unicode.IsSpace\<close> holds: the six ASCII ones, U+0085, U+00A0, U+1680,
  U+2000 to U+200A, U+2028, U+2029, U+202F, U+205F and U+3000.
\<close>

definition spaceRunes :: "string list" where
  "spaceRunes =
     [[CHR 0x09], [CHR 0x0A], [CHR 0x0B], [CHR 0x0C], [CHR 0x0D], [CHR 0x20],
      [CHR 0xC2, CHR 0x85], [CHR 0xC2, CHR 0xA0],
      [CHR 0xE1, CHR 0x9A, CHR 0x80],
      [CHR 0xE2, CHR 0x80, CHR 0x80], [CHR 0xE2, CHR 0x80, CHR 0x81],
      [CHR 0xE2, CHR 0x80, CHR 0x82], [CHR 0xE2, CHR 0x80, CHR 0x83],
      [CHR 0xE2, CHR 0x80, CHR 0x84], [CHR 0xE2, CHR 0x80, CHR 0x85],
      [CHR 0xE2, CHR 0x80, CHR 0x86], [CHR 0xE2, CHR 0x80, CHR 0x87],
      [CHR 0xE2, CHR 0x80, CHR 0x88], [CHR 0xE2, CHR 0x80, CHR 0x89],
      [CHR 0xE2, CHR 0x80, CHR 0x8A],
      [CHR 0xE2, CHR 0x80, CHR 0xA8], [CHR 0xE2, CHR 0x80, CHR 0xA9],
      [CHR 0xE2, CHR 0x80, CHR 0xAF],
      [CHR 0xE2, CHR 0x81, CHR 0x9F],
      [CHR 0xE3, CHR 0x80, CHR 0x80]]"

function TrimLeftSpace :: "string \<Rightarrow> string" where
  "TrimLeftSpace s =
     (case find (\<lambda>w. w \<noteq> [] \<and> prefix w s) spaceRunes of
        None \<Rightarrow> s
      | Some w \<Rightarrow> TrimLeftSpace (drop (length w) s))"
  by pat_completeness auto
termination
proof (relation "measure length")
  fix s w
  assume "find (\<lambda>w. w \<noteq> [] \<and> prefix w s) spaceRunes = Some w"
  then have "w \<noteq> []" and "prefix w s"
    by (auto simp: find_Some_iff)
  then have "length w \<noteq> 0" and "length w \<le> length s"
    by (auto simp: prefix_length_le)
  then have "length s - length w < length s"
    by arith
  then show "(drop (length w) s, s) \<in> measure length"
    by simp
qed simp

function TrimRightSpace :: "string \<Rightarrow> string" where
  "TrimRightSpace s =
     (case find (\<lambda>w. w \<noteq> [] \<and> suffix w s) spaceRunes of
        None \<Rightarrow> s
      | Some w \<Rightarrow> TrimRightSpace (take (length s - length w) s))"
  by pat_completeness auto
termination
proof (relation "measure length")
  fix s w
  assume "find (\<lambda>w. w \<noteq> [] \<and> suffix w s) spaceRunes = Some w"
  then have "w \<noteq> []" and "suffix w s"
    by (auto simp: find_Some_iff)
  then have "length w \<noteq> 0" and "length w \<le> length s"
    by (auto simp: suffix_length_le)
  then have "length s - length w < length s"
    by arith
  then show "(take (length s - length w) s, s) \<in> measure length"
    by simp
qed simp

definition TrimSpace :: "string \<Rightarrow> string" where
  "TrimSpace s = TrimRightSpace (TrimLeftSpace s)"

definition TrimSuffix :: "string \<Rightarrow> string \<Rightarrow> string" where
  "TrimSuffix s suf = (if suffix suf s then take (length s - length suf) s else s)"

text \<open>A \<^verbatim>\<open>bytes.Buffer\<close> is the string written so far.\<close>

definition WriteString :: "string \<Rightarrow> string \<Rightarrow> string" where
  "WriteString buf s = buf @ s"

text \<open>
  \<^verbatim>\<open>func (e *Error) Error() string\<close> for a non-nil receiver, and \<open>err_Error\<close>, the call
  \<^verbatim>\<open>err.Error()\<close> on a non-nil interface value. On an interface that holds a nil
  \<^verbatim>\<open>*Error\<close> the call runs the method with a nil receiver, whose first statement that
  touches the receiver, \<^verbatim>\<open>e.Code != ""\<close>, panics; the panic of a cause ends the
  rendering of the value that wraps it.
\<close>

fun Error_Error :: "Error \<Rightarrow> panic + string" and err_Error :: "goerror \<Rightarrow> panic + string" where
  "Error_Error (Error code message op err additional internal fl ps) =
     (let buf = [];
          buf = (if code \<noteq> '''' then WriteString buf (''<'' @ code @ ''> '') else buf);
          buf = (if fl \<noteq> '''' then WriteString buf (fl @ '' - '') else buf);
          buf = (if op \<noteq> '''' then WriteString buf (op @ '': '') else buf)
      in case (case err of
                 None \<Rightarrow> Inr buf
               | Some c \<Rightarrow> map_sum id (\<lambda>s. WriteString buf (s @ '', '')) (err_Error c)) of
           Inl p \<Rightarrow> Inl p
         | Inr buf \<Rightarrow>
             (let buf = (if message \<noteq> '''' then WriteString buf message else buf)
              in Inr (TrimSuffix (TrimSpace buf) '','')))"
| "err_Error (AppError e) = Error_Error e"
| "err_Error NilError = Inl NilDereference"
| "err_Error (Foreign s) = Inr s"

section \<open>Serialization\<close>

text \<open>\<^verbatim>\<open>type wrappingError struct\<close>, the wire form.\<close>

record wrappingError =
  w_Code :: string
  w_Message :: string
  w_Operation :: string
  w_Err :: string
  w_FileLine :: string
  w_Additional :: StackTrace
  w_Internal :: bool

definition zero_wrappingError :: wrappingError where
  "zero_wrappingError =
     \<lparr>w_Code = '''', w_Message = '''', w_Operation = '''', w_Err = '''', w_FileLine = '''',
      w_Additional = None, w_Internal = False\<rparr>"

definition zero_Trace :: Trace where
  "zero_Trace = \<lparr>Index = 0, Function = '''', File = '''', Line = 0\<rparr>"

subsection \<open>Package encoding/json\<close>

text \<open>
  Modelled from the documentation of package \<^verbatim>\<open>encoding/json\<close>, for the two struct types
  the library passes to it. A byte sequence that is JSON text is represented by the
  document it spells (\<open>JSONText\<close>), with a string literal as the Go string the decoder
  reads from it and a number literal as its integer value when it is written without
  fraction and exponent; every other byte sequence is \<open>NotJSON\<close>. The lexical layer
  (white space, escapes) is not modelled.
\<close>

datatype json =
    JNull
  | JBool bool
  | JNumber int
  | JNumberFrac string
  | JString string
  | JArray "json list"
  | JObject "(string \<times> json) list"

datatype bytes = NotJSON | JSONText json

text \<open>
  What the functions of the library return as their \<^verbatim>\<open>error\<close>: the two kinds of error of
  \<^verbatim>\<open>json.Unmarshal\<close>, the error of \<^verbatim>\<open>json.Marshal\<close> for a \<^verbatim>\<open>MarshalJSON\<close> method that
  returns bytes that are not JSON text, and the error \<^verbatim>\<open>Scan\<close> makes itself.
\<close>

datatype failure =
  JSONSyntaxError | JSONUnmarshalTypeError | JSONMarshalerError | ScanNotSupported

text \<open>
  The encoder coerces a string to valid UTF-8: each byte that does not start a valid
  encoding is replaced by U+FFFD. \<open>runeLen s\<close> is the width of the valid encoding at the
  front of \<open>s\<close>, and 0 when there is none (\<^verbatim>\<open>utf8.DecodeRune\<close> then reports
  \<^verbatim>\<open>RuneError\<close> with width 1).
\<close>

fun follows :: "(nat \<times> nat) list \<Rightarrow> string \<Rightarrow> bool" where
  "follows [] cs = True"
| "follows ((lo, hi) # rs) [] = False"
| "follows ((lo, hi) # rs) (c # cs) = (lo \<le> of_char c \<and> of_char c \<le> hi \<and> follows rs cs)"

definition runeLen :: "string \<Rightarrow> nat" where
  "runeLen s =
     (case s of
        [] \<Rightarrow> 0
      | c # cs \<Rightarrow>
          let b = (of_char c :: nat) in
          if b < 0x80 then 1
          else if 0xC2 \<le> b \<and> b \<le> 0xDF then (if follows [(0x80, 0xBF)] cs then 2 else 0)
          else if b = 0xE0 then (if follows [(0xA0, 0xBF), (0x80, 0xBF)] cs then 3 else 0)
          else if b = 0xED then (if follows [(0x80, 0x9F), (0x80, 0xBF)] cs then 3 else 0)
          else if 0xE1 \<le> b \<and> b \<le> 0xEF
            then (if follows [(0x80, 0xBF), (0x80, 0xBF)] cs then 3 else 0)
          else if b = 0xF0
            then (if follows [(0x90, 0xBF), (0x80, 0xBF), (0x80, 0xBF)] cs then 4 else 0)
          else if 0xF1 \<le> b \<and> b \<le> 0xF3
            then (if follows [(0x80, 0xBF), (0x80, 0xBF), (0x80, 0xBF)] cs then 4 else 0)
          else if b = 0xF4
            then (if follows [(0x80, 0x8F), (0x80, 0xBF), (0x80, 0xBF)] cs then 4 else 0)
          else 0)"

function coerce_utf8 :: "string \<Rightarrow> string" where
  "coerce_utf8 [] = []"
| "coerce_utf8 (c # cs) =
     (if runeLen (c # cs) = 0 then [CHR 0xEF, CHR 0xBF, CHR 0xBD] @ coerce_utf8 cs
      else c # take (runeLen (c # cs) - 1) cs @ coerce_utf8 (drop (runeLen (c # cs) - 1) cs))"
  by pat_completeness auto
termination
  by (relation "measure length") simp_all

fun validUTF8 :: "string \<Rightarrow> bool" where
  "validUTF8 [] = True"
| "validUTF8 (c # cs) =
     (runeLen (c # cs) \<noteq> 0 \<and> validUTF8 (drop (runeLen (c # cs) - 1) cs))"

text \<open>
  Encoding. The tags of \<^verbatim>\<open>Trace\<close> omit an empty \<^verbatim>\<open>function\<close> and \<^verbatim>\<open>file\<close> and a zero
  \<^verbatim>\<open>line\<close>; a nil slice is written \<^verbatim>\<open>null\<close>, any other as an array. Encoding these
  structs cannot fail.
\<close>

definition Trace_json :: "Trace \<Rightarrow> json" where
  "Trace_json t =
     JObject ([(''index'', JNumber (sint (Index t)))]
       @ (if Function t = '''' then [] else [(''function'', JString (coerce_utf8 (Function t)))])
       @ (if File t = '''' then [] else [(''file'', JString (coerce_utf8 (File t)))])
       @ (if Line t = 0 then [] else [(''line'', JNumber (sint (Line t)))]))"

definition StackTrace_json :: "StackTrace \<Rightarrow> json" where
  "StackTrace_json ts = (case ts of None \<Rightarrow> JNull | Some xs \<Rightarrow> JArray (map Trace_json xs))"

text \<open>
  A frame as it is read back from its encoding: the two strings coerced to valid UTF-8,
  the two numbers as they were. Used to state the round trip.
\<close>

definition coerce_Trace :: "Trace \<Rightarrow> Trace" where
  "coerce_Trace t = t\<lparr>Function := coerce_utf8 (Function t), File := coerce_utf8 (File t)\<rparr>"

definition json_Marshal :: "wrappingError \<Rightarrow> failure + bytes" where
  "json_Marshal w =
     Inr (JSONText (JObject
       [(''code'', JString (coerce_utf8 (w_Code w))),
        (''message'', JString (coerce_utf8 (w_Message w))),
        (''operation'', JString (coerce_utf8 (w_Operation w))),
        (''error'', JString (coerce_utf8 (w_Err w))),
        (''file_line'', JString (coerce_utf8 (w_FileLine w))),
        (''additional'', StackTrace_json (w_Additional w)),
        (''internal'', JBool (w_Internal w))]))"

text \<open>
  Decoding into a zero struct. A key selects the field whose name it equals, also when
  the two differ only in case: the package compares them under Unicode simple case
  folding, which for the names of these structs (ASCII letters and the underscore)
  means that a letter matches in either case, that U+017F (long s) matches \<^verbatim>\<open>s\<close> and that
  U+212A (Kelvin sign) matches \<^verbatim>\<open>k\<close>. A key that selects no field is skipped, a later
  value for a field replaces an earlier one, \<^verbatim>\<open>null\<close> leaves a string, number or boolean
  as it is and makes a slice nil, an array is decoded element by element into a slice
  that starts empty, and a value of the wrong kind, or an integer outside the range of
  \<^verbatim>\<open>int\<close>, is an \<^verbatim>\<open>UnmarshalTypeError\<close>.
\<close>

definition asciiUpper :: "char \<Rightarrow> char" where
  "asciiUpper c =
     (let n = (of_char c :: nat) in if 97 \<le> n \<and> n \<le> 122 then char_of (n - 32) else c)"

fun foldName :: "string \<Rightarrow> string" where
  "foldName [] = []"
| "foldName (c # cs) =
     (if c = CHR 0xC5 \<and> take 1 cs = [CHR 0xBF] then CHR ''S'' # foldName (drop 1 cs)
      else if c = CHR 0xE2 \<and> take 2 cs = [CHR 0x84, CHR 0xAA] then CHR ''K'' # foldName (drop 2 cs)
      else asciiUpper c # foldName cs)"

definition key_matches :: "string \<Rightarrow> string \<Rightarrow> bool" where
  "key_matches k name = (foldName k = foldName name)"

definition decode_string :: "json \<Rightarrow> string \<Rightarrow> failure + string" where
  "decode_string v cur =
     (case v of JString s \<Rightarrow> Inr s | JNull \<Rightarrow> Inr cur | _ \<Rightarrow> Inl JSONUnmarshalTypeError)"

definition decode_bool :: "json \<Rightarrow> bool \<Rightarrow> failure + bool" where
  "decode_bool v cur =
     (case v of JBool b \<Rightarrow> Inr b | JNull \<Rightarrow> Inr cur | _ \<Rightarrow> Inl JSONUnmarshalTypeError)"

definition decode_int :: "json \<Rightarrow> go_int \<Rightarrow> failure + go_int" where
  "decode_int v cur =
     (case v of
        JNumber i \<Rightarrow>
          if - (2 ^ 63) \<le> i \<and> i < 2 ^ 63 then Inr (word_of_int i)
          else Inl JSONUnmarshalTypeError
      | JNull \<Rightarrow> Inr cur
      | _ \<Rightarrow> Inl JSONUnmarshalTypeError)"

fun decode_object ::
  "(string \<Rightarrow> json \<Rightarrow> 'a \<Rightarrow> failure + 'a) \<Rightarrow> (string \<times> json) list \<Rightarrow> 'a \<Rightarrow> failure + 'a" where
  "decode_object field [] x = Inr x"
| "decode_object field ((k, v) # kvs) x =
     (case field k v x of Inl f \<Rightarrow> Inl f | Inr x' \<Rightarrow> decode_object field kvs x')"

fun decode_array :: "(json \<Rightarrow> failure + 'a) \<Rightarrow> json list \<Rightarrow> failure + 'a list" where
  "decode_array elem [] = Inr []"
| "decode_array elem (j # js) =
     (case elem j of
        Inl f \<Rightarrow> Inl f
      | Inr x \<Rightarrow> (case decode_array elem js of Inl f \<Rightarrow> Inl f | Inr xs \<Rightarrow> Inr (x # xs)))"

definition Trace_field :: "string \<Rightarrow> json \<Rightarrow> Trace \<Rightarrow> failure + Trace" where
  "Trace_field k v t =
     (if key_matches k ''index''
        then map_sum id (\<lambda>i. t\<lparr>Index := i\<rparr>) (decode_int v (Index t))
      else if key_matches k ''function''
        then map_sum id (\<lambda>s. t\<lparr>Function := s\<rparr>) (decode_string v (Function t))
      else if key_matches k ''file''
        then map_sum id (\<lambda>s. t\<lparr>File := s\<rparr>) (decode_string v (File t))
      else if key_matches k ''line''
        then map_sum id (\<lambda>i. t\<lparr>Line := i\<rparr>) (decode_int v (Line t))
      else Inr t)"

definition decode_Trace :: "json \<Rightarrow> failure + Trace" where
  "decode_Trace v =
     (case v of
        JObject kvs \<Rightarrow> decode_object Trace_field kvs zero_Trace
      | JNull \<Rightarrow> Inr zero_Trace
      | _ \<Rightarrow> Inl JSONUnmarshalTypeError)"

definition decode_StackTrace :: "json \<Rightarrow> StackTrace \<Rightarrow> failure + StackTrace" where
  "decode_StackTrace v cur =
     (case v of
        JArray js \<Rightarrow> map_sum id Some (decode_array decode_Trace js)
      | JNull \<Rightarrow> Inr None
      | _ \<Rightarrow> Inl JSONUnmarshalTypeError)"

definition wrappingError_field ::
  "string \<Rightarrow> json \<Rightarrow> wrappingError \<Rightarrow> failure + wrappingError" where
  "wrappingError_field k v w =
     (if key_matches k ''code''
        then map_sum id (\<lambda>s. w\<lparr>w_Code := s\<rparr>) (decode_string v (w_Code w))
      else if key_matches k ''message''
        then map_sum id (\<lambda>s. w\<lparr>w_Message := s\<rparr>) (decode_string v (w_Message w))
      else if key_matches k ''operation''
        then map_sum id (\<lambda>s. w\<lparr>w_Operation := s\<rparr>) (decode_string v (w_Operation w))
      else if key_matches k ''error''
        then map_sum id (\<lambda>s. w\<lparr>w_Err := s\<rparr>) (decode_string v (w_Err w))
      else if key_matches k ''file_line''
        then map_sum id (\<lambda>s. w\<lparr>w_FileLine := s\<rparr>) (decode_string v (w_FileLine w))
      else if key_matches k ''additional''
        then map_sum id (\<lambda>a. w\<lparr>w_Additional := a\<rparr>) (decode_StackTrace v (w_Additional w))
      else if key_matches k ''internal''
        then map_sum id (\<lambda>b. w\<lparr>w_Internal := b\<rparr>) (decode_bool v (w_Internal w))
      else Inr w)"

text \<open>\<^verbatim>\<open>json.Unmarshal(data, &err)\<close> for \<^verbatim>\<open>var err wrappingError\<close>.\<close>

definition json_Unmarshal :: "bytes \<Rightarrow> failure + wrappingError" where
  "json_Unmarshal data =
     (case data of
        NotJSON \<Rightarrow> Inl JSONSyntaxError
      | JSONText JNull \<Rightarrow> Inr zero_wrappingError
      | JSONText (JObject kvs) \<Rightarrow> decode_object wrappingError_field kvs zero_wrappingError
      | JSONText _ \<Rightarrow> Inl JSONUnmarshalTypeError)"

subsection \<open>The methods of the library\<close>

text \<open>
  \<^verbatim>\<open>MarshalJSON\<close> calls \<^verbatim>\<open>e.Err.Error()\<close> when there is a cause, so it panics when that
  call does; otherwise it returns what \<^verbatim>\<open>json.Marshal\<close> returns, bytes or an \<^verbatim>\<open>error\<close>.
\<close>

definition MarshalJSON :: "Error \<Rightarrow> panic + (failure + bytes)" where
  "MarshalJSON e =
     (let err = \<lparr>w_Code = Code e, w_Message = Message e, w_Operation = Operation e,
                 w_Err = '''', w_FileLine = '''', w_Additional = Additional e,
                 w_Internal = Internal e\<rparr>
      in case (case Err e of
                 None \<Rightarrow> Inr err
               | Some c \<Rightarrow>
                   map_sum id (\<lambda>s. err\<lparr>w_Err := s, w_FileLine := fileLine e\<rparr>) (err_Error c)) of
           Inl p \<Rightarrow> Inl p
         | Inr err \<Rightarrow> Inr (json_Marshal err))"

text \<open>
  A method that assigns to its receiver returns the receiver as it is afterwards, with
  the \<^verbatim>\<open>error\<close> it returns (\<^term>\<open>None\<close> is nil).
\<close>

definition UnmarshalJSON :: "Error \<Rightarrow> bytes \<Rightarrow> Error \<times> failure option" where
  "UnmarshalJSON e data =
     (case json_Unmarshal data of
        Inl mErr \<Rightarrow> (e, Some mErr)
      | Inr err \<Rightarrow>
          (Error (w_Code err) (w_Message err) (w_Operation err)
             (if w_Err err \<noteq> '''' then Some (Foreign (w_Err err)) else Err e)
             (w_Additional err) (w_Internal err) (w_FileLine err) (pcs e),
           None))"

text \<open>
  \<^verbatim>\<open>json.Unmarshal(buf, e)\<close> and \<^verbatim>\<open>json.Marshal(e)\<close> for a non-nil \<^verbatim>\<open>e *Error\<close>: the
  package checks that the bytes are JSON text and hands over to the method of \<^verbatim>\<open>*Error\<close>;
  a panic of the method is not recovered.
\<close>

definition json_Unmarshal_Error :: "bytes \<Rightarrow> Error \<Rightarrow> Error \<times> failure option" where
  "json_Unmarshal_Error buf e =
     (case buf of NotJSON \<Rightarrow> (e, Some JSONSyntaxError) | JSONText d \<Rightarrow> UnmarshalJSON e buf)"

definition json_Marshal_Error :: "Error \<Rightarrow> panic + (failure + bytes)" where
  "json_Marshal_Error e =
     (case MarshalJSON e of
        Inl p \<Rightarrow> Inl p
      | Inr (Inl f) \<Rightarrow> Inr (Inl f)
      | Inr (Inr NotJSON) \<Rightarrow> Inr (Inl JSONMarshalerError)
      | Inr (Inr (JSONText d)) \<Rightarrow> Inr (Inr (JSONText d)))"

text \<open>
  The argument of \<^verbatim>\<open>Scan\<close> is an \<^verbatim>\<open>any\<close>: nil, a non-nil \<^verbatim>\<open>[]byte\<close>, a nil \<^verbatim>\<open>[]byte\<close>,
  or a value of another type (named by a description).
\<close>

datatype any = AnyNil | AnyBytes bytes | AnyNilBytes | AnyOther string

definition Scan :: "Error \<Rightarrow> any \<Rightarrow> Error \<times> failure option" where
  "Scan e v =
     (case v of
        AnyNil \<Rightarrow> (e, None)
      | AnyBytes buf \<Rightarrow> json_Unmarshal_Error buf e
      | AnyNilBytes \<Rightarrow> (e, Some ScanNotSupported)
      | AnyOther ty \<Rightarrow> (e, Some ScanNotSupported))"

definition Value :: "Error \<Rightarrow> panic + (failure + bytes)" where
  "Value e = json_Marshal_Error e"

section \<open>Concrete values used to run the definitions\<close>

definition rt0 :: runtime where
  "rt0 = \<lparr>Caller = (\<lambda>skip. (0x4a1f20, ''/app/user/service.go'', 42, True)),
          Callers = (\<lambda>skip. [0x4a1f20, 0x4a2c00, 0x43b8e1]),
          FuncName = (\<lambda>pc. if pc = 0x4a1f20 then ''user.Get'' else ''main.main''),
          FuncFileLine = (\<lambda>pc. if pc = 0x4a1f20 then (''/app/user/service.go'', 42)
                                else (''/app/main.go'', 17))\<rparr>"

definition e_invalid :: Error where
  "e_invalid = Error ''invalid'' ''bad input'' ''Parse'' None None False ''p.go:7'' []"

definition e_blank_wrapping :: Error where
  "e_blank_wrapping =
     Error '''' '''' ''Handle'' (Some (AppError e_invalid)) None False ''h.go:9'' []"

definition e_blank_foreign :: Error where
  "e_blank_foreign = Error '''' '''' '''' (Some (Foreign ''EOF'')) None False '''' []"

text \<open>
  An Error Value with empty code and message whose cause is a nil \<^verbatim>\<open>*Error\<close>, as
  \<^verbatim>\<open>&Error{Err: Wrap(nil, "", "")}\<close> makes it.
\<close>

definition e_blank_nil :: Error where
  "e_blank_nil = Error '''' '''' '''' (Some NilError) None False '''' []"


text \<open>An instance that is reused as the target of a decoding: it has a cause and \<^verbatim>\<open>pcs\<close>.\<close>

definition e_reused :: Error where
  "e_reused =
     Error ''internal'' ''old'' ''Op'' (Some (Foreign ''EOF''))
       (Some [\<lparr>Index = 0, Function = ''main.main'', File = ''/app/main.go'', Line = 17\<rparr>])
       True ''a.go:1'' [0x4a1f20, 0x4a2c00]"

text \<open>
  Three values for the round trip: a cause whose \<^verbatim>\<open>Error()\<close> is the empty string
  (\<^verbatim>\<open>errors.New("")\<close>), a message that is not valid UTF-8 (the byte \<^verbatim>\<open>0xFF\<close>), and
  frames.
\<close>

definition e_empty_cause :: Error where
  "e_empty_cause = Error ''invalid'' ''m'' ''op'' (Some (Foreign '''')) None False ''f.go:1'' []"

definition e_bad_utf8 :: Error where
  "e_bad_utf8 = Error ''invalid'' [CHR 0xFF] ''op'' None None False ''f.go:1'' []"

definition e_frames :: Error where
  "e_frames =
     Error ''not_found'' ''user missing'' ''UserService.Get'' (Some (AppError e_invalid))
       (Some [\<lparr>Index = 0, Function = ''user.Get'', File = ''/app/user/service.go'', Line = 42\<rparr>,
              \<lparr>Index = 1, Function = '''', File = '''', Line = 0\<rparr>])
       False ''/app/user/service.go:42'' [0x4a1f20, 0x4a2c00]"

section \<open>Constructors\<close>

lemmas code_defs =
  CONFLICT_def INTERNAL_def INVALID_def NOTFOUND_def UNKNOWN_def MAXIMUMATTEMPTS_def
  EXPIRED_def

lemma newError_Some:
  "\<exists>e. newError rt err message code op = Some e \<and> Code e = code \<and> Message e = message
       \<and> Operation e = op \<and> Err e = err \<and> Internal e = (code = INTERNAL)"
  by (simp add: newError_def set_Internal_def Let_def split: prod.split)

text \<open>
  C1. Whatever the cause (nil or not), the message and the operation, each of the seven
  named constructors returns a non-nil Error Value whose code is the one its name says,
  and \<^verbatim>\<open>NewE\<close> and \<^verbatim>\<open>ErrorF\<close> return one whose code is the current \<^verbatim>\<open>DefaultCode\<close>.
\<close>

theorem C1_constructor_codes:
  "(\<exists>e. NewInternal rt err message op = Some e \<and> Code e = ''internal'')
   \<and> (\<exists>e. NewConflict rt err message op = Some e \<and> Code e = ''conflict'')
   \<and> (\<exists>e. NewInvalid rt err message op = Some e \<and> Code e = ''invalid'')
   \<and> (\<exists>e. NewNotFound rt err message op = Some e \<and> Code e = ''not_found'')
   \<and> (\<exists>e. NewUnknown rt err message op = Some e \<and> Code e = ''unknown'')
   \<and> (\<exists>e. NewMaximumAttempts rt err message op = Some e \<and> Code e = ''maximum_attempts'')
   \<and> (\<exists>e. NewExpired rt err message op = Some e \<and> Code e = ''expired'')
   \<and> (\<exists>e. NewE g rt err message op = Some e \<and> Code e = DefaultCode g)
   \<and> (\<exists>e. ErrorF Sprintf g rt err op format args = Some e \<and> Code e = DefaultCode g)"
proof -
  have named: "\<exists>e. newError rt err message code op = Some e \<and> Code e = code"
    for code message
    using newError_Some [of rt err message code op] by blast
  show ?thesis
    unfolding NewInternal_def NewConflict_def NewInvalid_def NewNotFound_def NewUnknown_def
      NewMaximumAttempts_def NewExpired_def NewE_def ErrorF_def
    using named [of message INTERNAL] named [of message CONFLICT] named [of message INVALID]
      named [of message NOTFOUND] named [of message UNKNOWN]
      named [of message MAXIMUMATTEMPTS] named [of message EXPIRED]
      named [of message "DefaultCode g"] named [of "Sprintf format args" "DefaultCode g"]
    by (simp add: code_defs)
qed

theorem C1_constructor_codes_witness:
  "map_option Code (NewNotFound rt0 None ''user missing'' ''UserService.Get'') = Some ''not_found''
   \<and> map_option Code (NewE init_globals rt0 (Some (Foreign ''boom'')) ''m'' ''op'')
       = Some ''internal''"
proof -
  obtain e where "NewNotFound rt0 None ''user missing'' ''UserService.Get'' = Some e"
    and "Code e = ''not_found''"
    using C1_constructor_codes [of rt0 None "''user missing''" "''UserService.Get''"]
    by blast
  moreover obtain e' where "NewE init_globals rt0 (Some (Foreign ''boom'')) ''m'' ''op'' = Some e'"
    and "Code e' = DefaultCode init_globals"
    using C1_constructor_codes [of rt0 "Some (Foreign ''boom'')" "''m''" "''op''" init_globals]
    by blast
  ultimately show ?thesis
    by (simp add: init_globals_def INTERNAL_def)
qed

section \<open>Wrap\<close>

text \<open>
  C2. \<^verbatim>\<open>Wrap\<close> of a nil error is nil, whatever the message and the operation; \<^verbatim>\<open>Wrap\<close>
  of a non-nil error is a non-nil Error Value whose cause is that error.
\<close>

theorem C2_Wrap:
  "Wrap g rt None message op = None
   \<and> (err \<noteq> None \<longrightarrow> (\<exists>e. Wrap g rt err message op = Some e \<and> Err e = err))"
  using newError_Some [of rt err message "DefaultCode g" op]
  by (auto simp: Wrap_def NewE_def)

theorem C2_Wrap_witness:
  "Wrap init_globals rt0 None ''m'' ''op'' = None
   \<and> map_option Err (Wrap init_globals rt0 (Some (Foreign ''boom'')) ''m'' ''op'')
       = Some (Some (Foreign ''boom''))"
proof -
  have "Some (Foreign ''boom'') \<noteq> None"
    by simp
  with C2_Wrap [of init_globals rt0 "''m''" "''op''" "Some (Foreign ''boom'')"]
  show ?thesis
    by auto
qed

section \<open>Code and Message\<close>

lemma Code_fn_AppError:
  "Code_fn (Some (AppError e)) =
     (if Code e \<noteq> '''' then Inr (Code e)
      else if Err e \<noteq> None then Code_fn (Err e) else Inr INTERNAL)"
  by (cases e) simp

lemma Code_fn_chain:
  "err \<noteq> None \<Longrightarrow>
   Code_fn err =
     (case find (\<lambda>e. Code e \<noteq> '''') (chain err) of
        Some e \<Rightarrow> Inr (Code e)
      | None \<Rightarrow> if ends_in_nil_pointer err then Inl NilDereference else Inr ''internal'')"
  by (induction err rule: Code_fn.induct) (auto simp: INTERNAL_def)

text \<open>
  C3, as the code has it. \<^verbatim>\<open>Code(err)\<close> returns the empty string for nil, \<^emph>\<open>panics for an
  interface that holds a nil\<close> \<^verbatim>\<open>*Error\<close>, returns the own code of an Error Value when that
  is not empty, does what \<^verbatim>\<open>Code\<close> of the cause does when the own code is empty and
  there is a cause, and returns \<^verbatim>\<open>INTERNAL\<close> for an Error Value with empty code and no
  cause and for every foreign error. Along a chain this is the first non-empty code;
  when there is none, it is a panic if the chain ends in an interface that holds a nil
  \<^verbatim>\<open>*Error\<close>, and \<^verbatim>\<open>INTERNAL\<close> otherwise.
\<close>

theorem C3_Code:
  "Code_fn None = Inr ''''
   \<and> Code_fn (Some NilError) = Inl NilDereference
   \<and> (Code e \<noteq> '''' \<longrightarrow> Code_fn (Some (AppError e)) = Inr (Code e))
   \<and> (Code e = '''' \<and> Err e \<noteq> None \<longrightarrow> Code_fn (Some (AppError e)) = Code_fn (Err e))
   \<and> (Code e = '''' \<and> Err e = None \<longrightarrow> Code_fn (Some (AppError e)) = Inr ''internal'')
   \<and> Code_fn (Some (Foreign s)) = Inr ''internal''
   \<and> (err \<noteq> None \<longrightarrow>
        Code_fn err =
          (case find (\<lambda>e. Code e \<noteq> '''') (chain err) of
             Some e \<Rightarrow> Inr (Code e)
           | None \<Rightarrow> if ends_in_nil_pointer err then Inl NilDereference else Inr ''internal''))"
  using Code_fn_chain [of err] by (simp add: Code_fn_AppError INTERNAL_def)

theorem C3_Code_witness:
  "Code_fn (Some (AppError e_invalid)) = Inr ''invalid''
   \<and> Code_fn (Some (AppError e_blank_wrapping)) = Inr ''invalid''
   \<and> Code_fn (Some (AppError zeroError)) = Inr ''internal''
   \<and> Code_fn (Some (AppError e_blank_foreign)) = Inr ''internal''
   \<and> Code_fn (Some (AppError e_blank_nil)) = Inl NilDereference"
proof -
  have 1: "Code e_invalid = ''invalid''" "Code e_blank_wrapping = ''''"
    "Err e_blank_wrapping = Some (AppError e_invalid)" "Code zeroError = ''''"
    "Err zeroError = None" "Code e_blank_foreign = ''''"
    "Err e_blank_foreign = Some (Foreign ''EOF'')" "Code e_blank_nil = ''''"
    "Err e_blank_nil = Some NilError"
    by (simp_all add: e_invalid_def e_blank_wrapping_def zeroError_def e_blank_foreign_def
        e_blank_nil_def)
  have "Code_fn (Some (AppError e_invalid)) = Inr ''invalid''"
    using C3_Code [of e_invalid] 1 by simp
  moreover have "Code_fn (Some (AppError e_blank_wrapping)) = Code_fn (Some (AppError e_invalid))"
    using C3_Code [of e_blank_wrapping] 1 by simp
  moreover have "Code_fn (Some (AppError zeroError)) = Inr ''internal''"
    using C3_Code [of zeroError] 1 by simp
  moreover have "Code_fn (Some (AppError e_blank_foreign)) = Inr ''internal''"
    using C3_Code [of e_blank_foreign "''EOF''"] 1 by simp
  moreover have "Code_fn (Some (AppError e_blank_nil)) = Inl NilDereference"
    using C3_Code [of e_blank_nil] 1 by simp
  ultimately show ?thesis
    by simp
qed

text \<open>
  The claim as worded, that \<^verbatim>\<open>Code\<close> returns \<^verbatim>\<open>INTERNAL\<close> in every case it does not
  name, fails where the library's own \<^verbatim>\<open>Wrap(nil, "m", "op")\<close> is passed on as an
  \<^verbatim>\<open>error\<close>, and where such a value is the cause of an Error Value with empty code.
\<close>

theorem C3_counterexample:
  "Code_fn (as_error (Wrap init_globals rt0 None ''m'' ''op'')) = Inl NilDereference
   \<and> Code_fn (Some (AppError e_blank_nil)) = Inl NilDereference"
  by (simp add: Wrap_def as_error_def e_blank_nil_def)

lemma Message_fn_AppError:
  "Message_fn g (Some (AppError e)) =
     (if Message e \<noteq> '''' then Inr (Message e)
      else if Err e \<noteq> None then Message_fn g (Err e) else Inr (GlobalError g))"
  by (cases e) simp

lemma Message_fn_chain:
  "err \<noteq> None \<Longrightarrow>
   Message_fn g err =
     (case find (\<lambda>e. Message e \<noteq> '''') (chain err) of
        Some e \<Rightarrow> Inr (Message e)
      | None \<Rightarrow> if ends_in_nil_pointer err then Inl NilDereference else Inr (GlobalError g))"
  by (induction g err rule: Message_fn.induct) auto

text \<open>
  C4, as the code has it. \<^verbatim>\<open>Message(err)\<close> returns the empty string for nil, \<^emph>\<open>panics for
  an interface that holds a nil\<close> \<^verbatim>\<open>*Error\<close>, returns the own message of an Error Value
  when that is not empty, does what \<^verbatim>\<open>Message\<close> of the cause does when the own message
  is empty and there is a cause, and returns the current \<^verbatim>\<open>GlobalError\<close> for an Error
  Value with empty message and no cause and for every foreign error. Along a chain this
  is the first non-empty message; when all messages are empty, it is a panic if the chain
  ends in an interface that holds a nil \<^verbatim>\<open>*Error\<close>, and \<^verbatim>\<open>GlobalError\<close> otherwise.
  \<^verbatim>\<open>GlobalError\<close> starts as "An error has occurred.".
\<close>

theorem C4_Message:
  "Message_fn g None = Inr ''''
   \<and> Message_fn g (Some NilError) = Inl NilDereference
   \<and> (Message e \<noteq> '''' \<longrightarrow> Message_fn g (Some (AppError e)) = Inr (Message e))
   \<and> (Message e = '''' \<and> Err e \<noteq> None \<longrightarrow>
        Message_fn g (Some (AppError e)) = Message_fn g (Err e))
   \<and> (Message e = '''' \<and> Err e = None \<longrightarrow>
        Message_fn g (Some (AppError e)) = Inr (GlobalError g))
   \<and> Message_fn g (Some (Foreign s)) = Inr (GlobalError g)
   \<and> (err \<noteq> None \<longrightarrow>
        Message_fn g err =
          (case find (\<lambda>e. Message e \<noteq> '''') (chain err) of
             Some e \<Rightarrow> Inr (Message e)
           | None \<Rightarrow>
               if ends_in_nil_pointer err then Inl NilDereference else Inr (GlobalError g)))
   \<and> (err \<noteq> None \<and> (\<forall>x \<in> set (chain err). Message x = '''') \<and> \<not> ends_in_nil_pointer err \<longrightarrow>
        Message_fn g err = Inr (GlobalError g))
   \<and> GlobalError init_globals = ''An error has occurred.''"
proof -
  have "Message_fn g err = Inr (GlobalError g)"
    if "err \<noteq> None" and "\<forall>x \<in> set (chain err). Message x = ''''"
      and "\<not> ends_in_nil_pointer err"
  proof -
    from that(2) have "find (\<lambda>e. Message e \<noteq> '''') (chain err) = None"
      by (simp add: find_None_iff)
    with Message_fn_chain [OF that(1), of g] that(3) show ?thesis
      by simp
  qed
  then show ?thesis
    using Message_fn_chain [of err g] by (simp add: Message_fn_AppError init_globals_def)
qed

theorem C4_Message_witness:
  "Message_fn init_globals (Some (AppError e_invalid)) = Inr ''bad input''
   \<and> Message_fn init_globals (Some (AppError e_blank_wrapping)) = Inr ''bad input''
   \<and> Message_fn init_globals (Some (AppError zeroError)) = Inr ''An error has occurred.''
   \<and> Message_fn init_globals (Some (AppError e_blank_foreign)) = Inr ''An error has occurred.''
   \<and> Message_fn init_globals (Some (AppError e_blank_nil)) = Inl NilDereference"
proof -
  have 1: "Message e_invalid = ''bad input''" "Message e_blank_wrapping = ''''"
    "Err e_blank_wrapping = Some (AppError e_invalid)" "Message zeroError = ''''"
    "Err zeroError = None" "Message e_blank_foreign = ''''"
    "Err e_blank_foreign = Some (Foreign ''EOF'')" "Message e_blank_nil = ''''"
    "Err e_blank_nil = Some NilError"
    by (simp_all add: e_invalid_def e_blank_wrapping_def zeroError_def e_blank_foreign_def
        e_blank_nil_def)
  have 2: "\<forall>x \<in> set (chain (Some (AppError e_blank_foreign))). Message x = ''''"
    "\<not> ends_in_nil_pointer (Some (AppError e_blank_foreign))"
    by (simp_all add: e_blank_foreign_def)
  have "Message_fn init_globals (Some (AppError e_invalid)) = Inr ''bad input''"
    using C4_Message [of init_globals e_invalid] 1 by simp
  moreover have "Message_fn init_globals (Some (AppError e_blank_wrapping))
      = Message_fn init_globals (Some (AppError e_invalid))"
    using C4_Message [of init_globals e_blank_wrapping] 1 by simp
  moreover have "Message_fn init_globals (Some (AppError zeroError))
      = Inr ''An error has occurred.''"
    using C4_Message [of init_globals zeroError] 1 by simp
  moreover have "Message_fn init_globals (Some (AppError e_blank_foreign))
      = Inr (GlobalError init_globals)"
    using C4_Message [of init_globals e_blank_foreign "''EOF''" "Some (AppError e_blank_foreign)"] 2
    by blast
  moreover have "GlobalError init_globals = ''An error has occurred.''"
    using C4_Message [of init_globals] by blast
  moreover have "Message_fn init_globals (Some (AppError e_blank_nil)) = Inl NilDereference"
    using C4_Message [of init_globals e_blank_nil] 1 by simp
  ultimately show ?thesis
    by simp
qed

text \<open>
  The claim as worded, that \<^verbatim>\<open>Message\<close> returns the fallback string in every case it
  does not name and for every chain whose messages are all empty, fails where the
  library's own \<^verbatim>\<open>Wrap(nil, "m", "op")\<close> is passed on as an \<^verbatim>\<open>error\<close>, and where such a
  value is the cause of an Error Value with empty message.
\<close>

theorem C4_counterexample:
  "Message_fn init_globals (as_error (Wrap init_globals rt0 None ''m'' ''op''))
     = Inl NilDereference
   \<and> Message_fn init_globals (Some (AppError e_blank_nil)) = Inl NilDereference
   \<and> map Message (chain (Some (AppError e_blank_nil))) = ['''']"
  by (simp add: Wrap_def as_error_def e_blank_nil_def)

section \<open>HTTP status\<close>

text \<open>
  C5. \<^verbatim>\<open>HTTPStatusCode\<close> is 409 for \<^verbatim>\<open>CONFLICT\<close>, 400 for \<^verbatim>\<open>INVALID\<close>, 404 for
  \<^verbatim>\<open>NOTFOUND\<close>, 402 for \<^verbatim>\<open>EXPIRED\<close>, 429 for \<^verbatim>\<open>MAXIMUMATTEMPTS\<close> and 500 for every
  other code, among them \<^verbatim>\<open>INTERNAL\<close>, \<^verbatim>\<open>UNKNOWN\<close> and the empty code; it depends on
  nothing but the code of the value.
\<close>

theorem C5_HTTPStatusCode:
  "HTTPStatusCode e =
     (if Code e = ''conflict'' then 409
      else if Code e = ''invalid'' then 400
      else if Code e = ''not_found'' then 404
      else if Code e = ''expired'' then 402
      else if Code e = ''maximum_attempts'' then 429
      else 500)
   \<and> (Code e \<in> {''internal'', ''unknown'', ''''} \<longrightarrow> HTTPStatusCode e = 500)
   \<and> (\<forall>e'. Code e' = Code e \<longrightarrow> HTTPStatusCode e' = HTTPStatusCode e)"
  by (simp add: HTTPStatusCode_def code_defs)

theorem C5_HTTPStatusCode_witness:
  "HTTPStatusCode e_invalid = 400 \<and> HTTPStatusCode zeroError = 500
   \<and> HTTPStatusCode (Error ''unknown'' '''' '''' None None False '''' []) = 500"
proof -
  have 1: "Code e_invalid = ''invalid''" "Code zeroError = ''''"
    by (simp_all add: e_invalid_def zeroError_def)
  have "HTTPStatusCode e_invalid = 400"
    using C5_HTTPStatusCode [of e_invalid] 1 by simp
  moreover have "HTTPStatusCode zeroError = 500"
    using C5_HTTPStatusCode [of zeroError] 1 by simp
  moreover have "HTTPStatusCode (Error ''unknown'' '''' '''' None None False '''' []) = 500"
    using C5_HTTPStatusCode [of "Error ''unknown'' '''' '''' None None False '''' []"] by simp
  ultimately show ?thesis
    by simp
qed
section \<open>The rendering\<close>












lemma Error_Error_closed_form:
  "Error_Error e =
     (case (case Err e of
              None \<Rightarrow> Inr ''''
            | Some c \<Rightarrow> map_sum id (\<lambda>t. t @ '', '') (err_Error c)) of
        Inl p \<Rightarrow> Inl p
      | Inr cause \<Rightarrow>
          Inr (TrimSuffix (TrimSpace
            ((if Code e = '''' then '''' else ''<'' @ Code e @ ''> '')
             @ (if fileLine e = '''' then '''' else fileLine e @ '' - '')
             @ (if Operation e = '''' then '''' else Operation e @ '': '')
             @ cause
             @ Message e)) '',''))"
proof (cases e)
  case (Error code message op err additional internal fl ps)
  show ?thesis
  proof (cases err)
    case None
    with Error show ?thesis
      by (simp add: WriteString_def)
  next
    case (Some c)
    with Error show ?thesis
      by (cases "err_Error c") (simp_all add: WriteString_def)
  qed
qed

lemma ends_in_nil_pointer_AppError:
  "ends_in_nil_pointer (Some (AppError e)) = ends_in_nil_pointer (Err e)"
  by (cases e) simp

lemma Error_Error_no_cause:
  "Err e = None \<Longrightarrow> \<exists>s. Error_Error e = Inr s"
  by (simp add: Error_Error_closed_form)

lemma Error_Error_cause:
  "Err e = Some c \<Longrightarrow> (\<exists>s. Error_Error e = Inr s) \<longleftrightarrow> (\<exists>t. err_Error c = Inr t)"
  by (cases "err_Error c") (simp_all add: Error_Error_closed_form)

lemma Error_returns:
  "(\<exists>s. Error_Error e = Inr s) \<longleftrightarrow> \<not> ends_in_nil_pointer (Err e)"
  "(\<exists>s. err_Error c = Inr s) \<longleftrightarrow> \<not> ends_in_nil_pointer (Some c)"
proof (induction e and c rule: Error_Error_err_Error.induct)
  case (1 code message op err additional internal fl ps)
  let ?e = "Error code message op err additional internal fl ps"
  show ?case
  proof (cases err)
    case None
    then have "Err ?e = None"
      by simp
    from Error_Error_no_cause [OF this] None show ?thesis
      by (simp del: Error_Error.simps)
  next
    case (Some c)
    then have "Err ?e = Some c"
      by simp
    from Error_Error_cause [OF this] 1 Some show ?thesis
      by (simp del: Error_Error.simps)
  qed
next
  case (2 e)
  then show ?case
    by (simp add: ends_in_nil_pointer_AppError)
qed simp_all

lemma Error_Error_panics:
  "ends_in_nil_pointer (Err e) \<Longrightarrow> Error_Error e = Inl NilDereference"
proof -
  assume "ends_in_nil_pointer (Err e)"
  then have "\<nexists>s. Error_Error e = Inr s"
    by (simp add: Error_returns)
  then obtain p where "Error_Error e = Inl p"
    by (cases "Error_Error e") auto
  then show ?thesis
    by (cases p) simp
qed



text \<open>
  C6, as the code has it. For an Error Value \<open>e\<close> with no cause, or with a cause whose
  \<^verbatim>\<open>Error()\<close> returns a string, \<^verbatim>\<open>e.Error()\<close> returns the concatenation of \<^verbatim>\<open><code>\<close> and
  a space if the code is not empty, the origin and \<^verbatim>\<open> - \<close> if the origin is not empty,
  the operation and \<^verbatim>\<open>: \<close> if the operation is not empty, the string of the cause and
  \<^verbatim>\<open>, \<close> if there is a cause, and the message, from which first the leading and trailing
  white space and then one trailing comma are removed. \<^emph>\<open>A cause that is an interface
  holding a nil\<close> \<^verbatim>\<open>*Error\<close> \<^emph>\<open>makes the call panic\<close>, at any depth of the chain:
  \<^verbatim>\<open>Error()\<close> returns exactly when the chain of causes does not end in such an interface.
\<close>

theorem C6_Error_rendering:
  "Error_Error e =
     (case (case Err e of
              None \<Rightarrow> Inr ''''
            | Some c \<Rightarrow> map_sum id (\<lambda>t. t @ '', '') (err_Error c)) of
        Inl p \<Rightarrow> Inl p
      | Inr cause \<Rightarrow>
          Inr (TrimSuffix (TrimSpace
            ((if Code e = '''' then '''' else ''<'' @ Code e @ ''> '')
             @ (if fileLine e = '''' then '''' else fileLine e @ '' - '')
             @ (if Operation e = '''' then '''' else Operation e @ '': '')
             @ cause
             @ Message e)) '',''))
   \<and> err_Error (AppError e) = Error_Error e
   \<and> err_Error (Foreign t) = Inr t
   \<and> err_Error NilError = Inl NilDereference
   \<and> ((\<exists>s. Error_Error e = Inr s) \<longleftrightarrow> \<not> ends_in_nil_pointer (Err e))"
  using Error_Error_closed_form [of e] Error_returns(1) [of e] by simp

theorem C6_Error_rendering_witness:
  "Error_Error e_invalid = Inr ''<invalid> p.go:7 - Parse: bad input''
   \<and> Error_Error e_blank_wrapping
       = Inr ''h.go:9 - Handle: <invalid> p.go:7 - Parse: bad input''
   \<and> Error_Error e_blank_nil = Inl NilDereference"
proof -
  have 1: "TrimSuffix (TrimSpace ''<invalid> p.go:7 - Parse: bad input'') '',''
      = ''<invalid> p.go:7 - Parse: bad input''"
    by code_simp
  have 2: "TrimSuffix (TrimSpace ''h.go:9 - Handle: <invalid> p.go:7 - Parse: bad input, '') '',''
      = ''h.go:9 - Handle: <invalid> p.go:7 - Parse: bad input''"
    by code_simp
  have 3: "Error_Error e_invalid = Inr ''<invalid> p.go:7 - Parse: bad input''"
    using C6_Error_rendering [of e_invalid] 1 by (simp add: e_invalid_def)
  have 4: "err_Error (AppError e_invalid) = Error_Error e_invalid"
    using C6_Error_rendering [of e_invalid] by simp
  have "Error_Error e_blank_wrapping
      = Inr ''h.go:9 - Handle: <invalid> p.go:7 - Parse: bad input''"
    using C6_Error_rendering [of e_blank_wrapping] 2 3 4
    by (simp add: e_blank_wrapping_def del: err_Error.simps)
  moreover have "Error_Error e_blank_nil = Inl NilDereference"
    using C6_Error_rendering [of e_blank_nil] by (simp add: e_blank_nil_def)
  ultimately show ?thesis
    using 3 by simp
qed

text \<open>
  The claim as worded fails in two ways. \<^verbatim>\<open>NewInternal(Wrap(nil, "m", "op"), "query
  failed", "Repo.Find")\<close> is an Error Value whose \<^verbatim>\<open>Error()\<close> returns no string: it
  panics. And the result is not always free of surrounding white space and of a trailing
  comma: the message \<^verbatim>\<open>a ,\<close> alone is rendered with a trailing space, the message
  \<^verbatim>\<open>a,,\<close> with a trailing comma.
\<close>

theorem C6_counterexample:
  "map_option Error_Error
       (NewInternal rt0 (as_error (Wrap init_globals rt0 None ''m'' ''op''))
          ''query failed'' ''Repo.Find'')
     = Some (Inl NilDereference)
   \<and> Error_Error (Error '''' ''a ,'' '''' None None False '''' []) = Inr ''a ''
   \<and> Error_Error (Error '''' ''a,,'' '''' None None False '''' []) = Inr ''a,''"
proof -
  have "\<exists>e. NewInternal rt0 (as_error (Wrap init_globals rt0 None ''m'' ''op''))
          ''query failed'' ''Repo.Find'' = Some e \<and> Err e = Some NilError"
    using newError_Some [of rt0 "Some NilError" "''query failed''" INTERNAL "''Repo.Find''"]
    by (auto simp: NewInternal_def Wrap_def as_error_def)
  then obtain e where e: "NewInternal rt0 (as_error (Wrap init_globals rt0 None ''m'' ''op''))
          ''query failed'' ''Repo.Find'' = Some e" "Err e = Some NilError"
    by blast
  then have "Error_Error e = Inl NilDereference"
    by (simp add: Error_Error_panics)
  moreover have "Error_Error (Error '''' ''a ,'' '''' None None False '''' []) = Inr ''a ''"
    by code_simp
  moreover have "Error_Error (Error '''' ''a,,'' '''' None None False '''' []) = Inr ''a,''"
    by code_simp
  ultimately show ?thesis
    using e by simp
qed




section \<open>The two serialization boundaries\<close>

lemma foldName_names:
  "foldName ''code'' = ''CODE''"
  "foldName ''message'' = ''MESSAGE''"
  "foldName ''operation'' = ''OPERATION''"
  "foldName ''error'' = ''ERROR''"
  "foldName ''file_line'' = ''FILE_LINE''"
  "foldName ''additional'' = ''ADDITIONAL''"
  "foldName ''internal'' = ''INTERNAL''"
  "foldName ''index'' = ''INDEX''"
  "foldName ''function'' = ''FUNCTION''"
  "foldName ''file'' = ''FILE''"
  "foldName ''line'' = ''LINE''"
  by code_simp+

lemma wrappingError_keys:
  "key_matches ''code'' ''code''"
  "\<not> key_matches ''message'' ''code''"
  "key_matches ''message'' ''message''"
  "\<not> key_matches ''operation'' ''code''"
  "\<not> key_matches ''operation'' ''message''"
  "key_matches ''operation'' ''operation''"
  "\<not> key_matches ''error'' ''code''"
  "\<not> key_matches ''error'' ''message''"
  "\<not> key_matches ''error'' ''operation''"
  "key_matches ''error'' ''error''"
  "\<not> key_matches ''file_line'' ''code''"
  "\<not> key_matches ''file_line'' ''message''"
  "\<not> key_matches ''file_line'' ''operation''"
  "\<not> key_matches ''file_line'' ''error''"
  "key_matches ''file_line'' ''file_line''"
  "\<not> key_matches ''additional'' ''code''"
  "\<not> key_matches ''additional'' ''message''"
  "\<not> key_matches ''additional'' ''operation''"
  "\<not> key_matches ''additional'' ''error''"
  "\<not> key_matches ''additional'' ''file_line''"
  "key_matches ''additional'' ''additional''"
  "\<not> key_matches ''internal'' ''code''"
  "\<not> key_matches ''internal'' ''message''"
  "\<not> key_matches ''internal'' ''operation''"
  "\<not> key_matches ''internal'' ''error''"
  "\<not> key_matches ''internal'' ''file_line''"
  "\<not> key_matches ''internal'' ''additional''"
  "key_matches ''internal'' ''internal''"
  by (simp_all only: key_matches_def foldName_names) simp_all

lemma Trace_keys:
  "key_matches ''index'' ''index''"
  "\<not> key_matches ''function'' ''index''"
  "key_matches ''function'' ''function''"
  "\<not> key_matches ''file'' ''index''"
  "\<not> key_matches ''file'' ''function''"
  "key_matches ''file'' ''file''"
  "\<not> key_matches ''line'' ''index''"
  "\<not> key_matches ''line'' ''function''"
  "\<not> key_matches ''line'' ''file''"
  "key_matches ''line'' ''line''"
  by (simp_all only: key_matches_def foldName_names) simp_all


lemma wrappingError_field_strings:
  "wrappingError_field ''code'' (JString s) w = Inr (w\<lparr>w_Code := s\<rparr>)"
  "wrappingError_field ''message'' (JString s) w = Inr (w\<lparr>w_Message := s\<rparr>)"
  "wrappingError_field ''operation'' (JString s) w = Inr (w\<lparr>w_Operation := s\<rparr>)"
  "wrappingError_field ''error'' (JString s) w = Inr (w\<lparr>w_Err := s\<rparr>)"
  "wrappingError_field ''file_line'' (JString s) w = Inr (w\<lparr>w_FileLine := s\<rparr>)"
  "wrappingError_field ''internal'' (JBool b) w = Inr (w\<lparr>w_Internal := b\<rparr>)"
  by (simp_all add: wrappingError_field_def wrappingError_keys decode_string_def decode_bool_def)

lemma wrappingError_field_additional:
  "wrappingError_field ''additional'' v w =
     map_sum id (\<lambda>a. w\<lparr>w_Additional := a\<rparr>) (decode_StackTrace v (w_Additional w))"
  by (simp add: wrappingError_field_def wrappingError_keys)

lemma Trace_field_values:
  "Trace_field ''index'' (JNumber (sint i)) t = Inr (t\<lparr>Index := i\<rparr>)"
  "Trace_field ''function'' (JString s) t = Inr (t\<lparr>Function := s\<rparr>)"
  "Trace_field ''file'' (JString s) t = Inr (t\<lparr>File := s\<rparr>)"
  "Trace_field ''line'' (JNumber (sint i)) t = Inr (t\<lparr>Line := i\<rparr>)"
  using sint_ge [of i] sint_lt [of i]
  by (simp_all add: Trace_field_def Trace_keys decode_string_def decode_int_def)

lemma decode_Trace_json: "decode_Trace (Trace_json t) = Inr (coerce_Trace t)"
  by (simp add: decode_Trace_def Trace_json_def Trace_field_values zero_Trace_def coerce_Trace_def)

lemma decode_array_Trace_json:
  "decode_array decode_Trace (map Trace_json ts) = Inr (map coerce_Trace ts)"
  by (induction ts) (simp_all add: decode_Trace_json)

lemma decode_StackTrace_json:
  "decode_StackTrace (StackTrace_json ts) cur = Inr (map_option (map coerce_Trace) ts)"
  by (cases ts) (simp_all add: decode_StackTrace_def StackTrace_json_def decode_array_Trace_json)

lemma json_round_trip:
  "\<exists>d. json_Marshal w = Inr (JSONText d)
     \<and> json_Unmarshal (JSONText d) =
         Inr \<lparr>w_Code = coerce_utf8 (w_Code w), w_Message = coerce_utf8 (w_Message w),
              w_Operation = coerce_utf8 (w_Operation w), w_Err = coerce_utf8 (w_Err w),
              w_FileLine = coerce_utf8 (w_FileLine w),
              w_Additional = map_option (map coerce_Trace) (w_Additional w),
              w_Internal = w_Internal w\<rparr>"
  by (simp add: json_Marshal_def json_Unmarshal_def wrappingError_field_strings
      wrappingError_field_additional decode_StackTrace_json zero_wrappingError_def)

lemma coerce_utf8_valid: "validUTF8 s \<Longrightarrow> coerce_utf8 s = s"
  by (induction s rule: coerce_utf8.induct) simp_all

lemma coerce_utf8_empty: "coerce_utf8 s = [] \<longleftrightarrow> s = []"
  by (cases s) simp_all

lemma coerce_Trace_valid:
  "validUTF8 (Function t) \<Longrightarrow> validUTF8 (File t) \<Longrightarrow> coerce_Trace t = t"
  by (simp add: coerce_Trace_def coerce_utf8_valid)

lemma MarshalJSON_no_cause:
  "Err e = None \<Longrightarrow>
   MarshalJSON e =
     Inr (json_Marshal \<lparr>w_Code = Code e, w_Message = Message e, w_Operation = Operation e,
                 w_Err = '''', w_FileLine = '''', w_Additional = Additional e,
                 w_Internal = Internal e\<rparr>)"
  by (simp add: MarshalJSON_def)

lemma MarshalJSON_cause:
  "Err e = Some c \<Longrightarrow>
   MarshalJSON e =
     (case err_Error c of
        Inl p \<Rightarrow> Inl p
      | Inr t \<Rightarrow>
          Inr (json_Marshal \<lparr>w_Code = Code e, w_Message = Message e, w_Operation = Operation e,
                 w_Err = t, w_FileLine = fileLine e, w_Additional = Additional e,
                 w_Internal = Internal e\<rparr>))"
  by (cases "err_Error c") (simp_all add: MarshalJSON_def)

lemma round_trip_no_cause:
  assumes "Err e = None"
  shows "\<exists>b. MarshalJSON e = Inr (Inr b)
     \<and> UnmarshalJSON r b =
         (Error (coerce_utf8 (Code e)) (coerce_utf8 (Message e)) (coerce_utf8 (Operation e))
            (Err r) (map_option (map coerce_Trace) (Additional e)) (Internal e) '''' (pcs r),
          None)"
proof -
  let ?w = "\<lparr>w_Code = Code e, w_Message = Message e, w_Operation = Operation e,
                 w_Err = '''', w_FileLine = '''', w_Additional = Additional e,
                 w_Internal = Internal e\<rparr>"
  obtain d where "json_Marshal ?w = Inr (JSONText d)"
    and "json_Unmarshal (JSONText d) =
         Inr \<lparr>w_Code = coerce_utf8 (w_Code ?w), w_Message = coerce_utf8 (w_Message ?w),
              w_Operation = coerce_utf8 (w_Operation ?w), w_Err = coerce_utf8 (w_Err ?w),
              w_FileLine = coerce_utf8 (w_FileLine ?w),
              w_Additional = map_option (map coerce_Trace) (w_Additional ?w),
              w_Internal = w_Internal ?w\<rparr>"
    using json_round_trip [of ?w] by blast
  then show ?thesis
    using MarshalJSON_no_cause [OF assms] by (simp add: UnmarshalJSON_def)
qed

lemma round_trip_cause:
  assumes "Err e = Some c" and "err_Error c = Inr t"
  shows "\<exists>b. MarshalJSON e = Inr (Inr b)
     \<and> UnmarshalJSON r b =
         (Error (coerce_utf8 (Code e)) (coerce_utf8 (Message e)) (coerce_utf8 (Operation e))
            (if t = '''' then Err r else Some (Foreign (coerce_utf8 t)))
            (map_option (map coerce_Trace) (Additional e)) (Internal e)
            (coerce_utf8 (fileLine e)) (pcs r),
          None)"
proof -
  let ?w = "\<lparr>w_Code = Code e, w_Message = Message e, w_Operation = Operation e,
                 w_Err = t, w_FileLine = fileLine e, w_Additional = Additional e,
                 w_Internal = Internal e\<rparr>"
  obtain d where "json_Marshal ?w = Inr (JSONText d)"
    and "json_Unmarshal (JSONText d) =
         Inr \<lparr>w_Code = coerce_utf8 (w_Code ?w), w_Message = coerce_utf8 (w_Message ?w),
              w_Operation = coerce_utf8 (w_Operation ?w), w_Err = coerce_utf8 (w_Err ?w),
              w_FileLine = coerce_utf8 (w_FileLine ?w),
              w_Additional = map_option (map coerce_Trace) (w_Additional ?w),
              w_Internal = w_Internal ?w\<rparr>"
    using json_round_trip [of ?w] by blast
  then show ?thesis
    using MarshalJSON_cause [OF assms(1)] assms(2)
    by (simp add: UnmarshalJSON_def coerce_utf8_empty)
qed

lemma MarshalJSON_panics:
  assumes "Err e = Some c" and "err_Error c = Inl p"
  shows "MarshalJSON e = Inl p"
  using MarshalJSON_cause [OF assms(1)] assms(2) by simp

lemma coerce_frames_valid:
  assumes "\<forall>fr \<in> set (case fs of None \<Rightarrow> [] | Some xs \<Rightarrow> xs). validUTF8 (Function fr) \<and> validUTF8 (File fr)"
  shows "map_option (map coerce_Trace) fs = fs"
proof (cases fs)
  case None
  then show ?thesis
    by simp
next
  case (Some xs)
  with assms have "map coerce_Trace xs = xs"
    by (intro map_idI) (simp add: coerce_Trace_valid)
  with Some show ?thesis
    by simp
qed

text \<open>
  C7, as the code has it. Encoding an Error Value and decoding the bytes into a fresh
  instance succeeds when the value has no cause or a cause whose \<^verbatim>\<open>Error()\<close> returns a
  string; when that call panics, so does \<^verbatim>\<open>MarshalJSON\<close>. The decoded value has the
  internal flag and the frames of the original, with the code, the message, the
  operation and the two strings of each frame coerced to valid UTF-8, so exactly those
  of the original when they are valid UTF-8. Its origin is empty when the original has no
  cause and the (coerced) origin of the original otherwise, its \<^verbatim>\<open>pcs\<close> are nil. Its
  cause is nil when the original has no cause \<^emph>\<open>or a cause whose string is empty\<close>;
  otherwise it is the foreign leaf error \<^verbatim>\<open>errors.New\<close> makes of the (coerced) string of
  the original cause, whose \<^verbatim>\<open>Error()\<close> is that string, whose code is read as
  \<^verbatim>\<open>INTERNAL\<close> and whose chain holds no Error Value.
\<close>

theorem C7_JSON_round_trip:
  "(Err e = None \<longrightarrow>
      (\<exists>b. MarshalJSON e = Inr (Inr b)
         \<and> UnmarshalJSON zeroError b =
             (Error (coerce_utf8 (Code e)) (coerce_utf8 (Message e)) (coerce_utf8 (Operation e))
                None (map_option (map coerce_Trace) (Additional e)) (Internal e) '''' [],
              None)))
   \<and> (Err e = None \<and> validUTF8 (Code e) \<and> validUTF8 (Message e) \<and> validUTF8 (Operation e)
        \<and> (\<forall>fr \<in> set (case Additional e of None \<Rightarrow> [] | Some xs \<Rightarrow> xs).
              validUTF8 (Function fr) \<and> validUTF8 (File fr)) \<longrightarrow>
      (\<exists>b. MarshalJSON e = Inr (Inr b)
         \<and> UnmarshalJSON zeroError b =
             (Error (Code e) (Message e) (Operation e) None (Additional e) (Internal e) '''' [],
              None)))
   \<and> (\<forall>c t. Err e = Some c \<and> err_Error c = Inr t \<longrightarrow>
        (\<exists>b. MarshalJSON e = Inr (Inr b)
           \<and> UnmarshalJSON zeroError b =
               (Error (coerce_utf8 (Code e)) (coerce_utf8 (Message e))
                  (coerce_utf8 (Operation e))
                  (if t = '''' then None else Some (Foreign (coerce_utf8 t)))
                  (map_option (map coerce_Trace) (Additional e)) (Internal e)
                  (coerce_utf8 (fileLine e)) [],
                None)))
   \<and> (\<forall>c p. Err e = Some c \<and> err_Error c = Inl p \<longrightarrow> MarshalJSON e = Inl p)
   \<and> (validUTF8 s \<longrightarrow> coerce_utf8 s = s)
   \<and> err_Error (Foreign s) = Inr s
   \<and> Code_fn (Some (Foreign s)) = Inr ''internal''
   \<and> chain (Some (Foreign s)) = []"
proof -
  have z: "Err zeroError = None" "pcs zeroError = []"
    by (simp_all add: zeroError_def)
  have 1: "\<exists>b. MarshalJSON e = Inr (Inr b)
         \<and> UnmarshalJSON zeroError b =
             (Error (coerce_utf8 (Code e)) (coerce_utf8 (Message e)) (coerce_utf8 (Operation e))
                None (map_option (map coerce_Trace) (Additional e)) (Internal e) '''' [],
              None)"
    if "Err e = None"
    using round_trip_no_cause [OF that, of zeroError] by (simp add: z)
  have 2: "\<exists>b. MarshalJSON e = Inr (Inr b)
         \<and> UnmarshalJSON zeroError b =
             (Error (Code e) (Message e) (Operation e) None (Additional e) (Internal e) '''' [],
              None)"
    if "Err e = None" "validUTF8 (Code e)" "validUTF8 (Message e)" "validUTF8 (Operation e)"
      "\<forall>fr \<in> set (case Additional e of None \<Rightarrow> [] | Some xs \<Rightarrow> xs).
              validUTF8 (Function fr) \<and> validUTF8 (File fr)"
    using 1 [OF that(1)] that(2-4) coerce_frames_valid [OF that(5)]
    by (simp add: coerce_utf8_valid)
  have 3: "\<exists>b. MarshalJSON e = Inr (Inr b)
           \<and> UnmarshalJSON zeroError b =
               (Error (coerce_utf8 (Code e)) (coerce_utf8 (Message e))
                  (coerce_utf8 (Operation e))
                  (if t = '''' then None else Some (Foreign (coerce_utf8 t)))
                  (map_option (map coerce_Trace) (Additional e)) (Internal e)
                  (coerce_utf8 (fileLine e)) [],
                None)"
    if "Err e = Some c" "err_Error c = Inr t" for c t
    using round_trip_cause [OF that, of zeroError] by (simp add: z cong: if_cong)
  have 4: "MarshalJSON e = Inl p" if "Err e = Some c" "err_Error c = Inl p" for c p
    using MarshalJSON_panics [OF that] .
  from 1 2 3 4 show ?thesis
    by (simp add: coerce_utf8_valid INTERNAL_def)
qed

theorem C7_JSON_round_trip_witness:
  "(\<exists>b. MarshalJSON e_invalid = Inr (Inr b)
      \<and> UnmarshalJSON zeroError b =
          (Error ''invalid'' ''bad input'' ''Parse'' None None False '''' [], None))
   \<and> (\<exists>b. MarshalJSON e_frames = Inr (Inr b)
      \<and> UnmarshalJSON zeroError b =
          (Error ''not_found'' ''user missing'' ''UserService.Get''
             (Some (Foreign ''<invalid> p.go:7 - Parse: bad input''))
             (Some [\<lparr>Index = 0, Function = ''user.Get'', File = ''/app/user/service.go'',
                      Line = 42\<rparr>,
                    \<lparr>Index = 1, Function = '''', File = '''', Line = 0\<rparr>])
             False ''/app/user/service.go:42'' [], None))
   \<and> MarshalJSON e_blank_nil = Inl NilDereference"
proof -
  have v: "validUTF8 ''invalid''" "validUTF8 ''bad input''" "validUTF8 ''Parse''"
    "validUTF8 ''not_found''" "validUTF8 ''user missing''" "validUTF8 ''UserService.Get''"
    "validUTF8 ''<invalid> p.go:7 - Parse: bad input''" "validUTF8 ''user.Get''"
    "validUTF8 ''/app/user/service.go''" "validUTF8 ''/app/user/service.go:42''"
    by code_simp+
  have c: "coerce_utf8 ''not_found'' = ''not_found''"
    "coerce_utf8 ''user missing'' = ''user missing''"
    "coerce_utf8 ''UserService.Get'' = ''UserService.Get''"
    "coerce_utf8 ''<invalid> p.go:7 - Parse: bad input'' = ''<invalid> p.go:7 - Parse: bad input''"
    "coerce_utf8 ''user.Get'' = ''user.Get''"
    "coerce_utf8 ''/app/user/service.go'' = ''/app/user/service.go''"
    "coerce_utf8 ''/app/user/service.go:42'' = ''/app/user/service.go:42''"
    using v C7_JSON_round_trip [of e_invalid] by blast+
  have 1: "Err e_invalid = None" "Code e_invalid = ''invalid''" "Message e_invalid = ''bad input''"
    "Operation e_invalid = ''Parse''" "Additional e_invalid = None" "Internal e_invalid = False"
    by (simp_all add: e_invalid_def)
  have a: "\<exists>b. MarshalJSON e_invalid = Inr (Inr b)
      \<and> UnmarshalJSON zeroError b =
          (Error ''invalid'' ''bad input'' ''Parse'' None None False '''' [], None)"
    using C7_JSON_round_trip [of e_invalid] 1 v by simp
  have r: "err_Error (AppError e_invalid) = Inr ''<invalid> p.go:7 - Parse: bad input''"
    by code_simp
  have 2: "Err e_frames = Some (AppError e_invalid)" "Code e_frames = ''not_found''"
    "Message e_frames = ''user missing''" "Operation e_frames = ''UserService.Get''"
    "Additional e_frames =
       Some [\<lparr>Index = 0, Function = ''user.Get'', File = ''/app/user/service.go'', Line = 42\<rparr>,
             \<lparr>Index = 1, Function = '''', File = '''', Line = 0\<rparr>]"
    "Internal e_frames = False" "fileLine e_frames = ''/app/user/service.go:42''"
    by (simp_all add: e_frames_def)
  have b: "\<exists>b. MarshalJSON e_frames = Inr (Inr b)
      \<and> UnmarshalJSON zeroError b =
          (Error ''not_found'' ''user missing'' ''UserService.Get''
             (Some (Foreign ''<invalid> p.go:7 - Parse: bad input''))
             (Some [\<lparr>Index = 0, Function = ''user.Get'', File = ''/app/user/service.go'',
                      Line = 42\<rparr>,
                    \<lparr>Index = 1, Function = '''', File = '''', Line = 0\<rparr>])
             False ''/app/user/service.go:42'' [], None)"
    using C7_JSON_round_trip [of e_frames] 2 r c
    by (simp add: coerce_Trace_def del: err_Error.simps)
  have 3: "Err e_blank_nil = Some NilError" "err_Error NilError = Inl NilDereference"
    by (simp_all add: e_blank_nil_def)
  have "MarshalJSON e_blank_nil = Inl NilDereference"
    using C7_JSON_round_trip [of e_blank_nil] 3 by blast
  with a b show ?thesis
    by blast
qed

text \<open>
  The claim as worded fails in three ways. With the cause \<^verbatim>\<open>errors.New("")\<close> the decoded
  value has no cause at all, so there is no \<^verbatim>\<open>cause.Error()\<close> to compare. A message that
  is not valid UTF-8 (the one byte \<^verbatim>\<open>0xFF\<close>) is not reproduced exactly: it comes back as
  U+FFFD. And a cause that is an interface holding a nil \<^verbatim>\<open>*Error\<close> makes the encoding
  panic.
\<close>

theorem C7_counterexample:
  "(\<exists>b. MarshalJSON e_empty_cause = Inr (Inr b)
      \<and> UnmarshalJSON zeroError b =
          (Error ''invalid'' ''m'' ''op'' None None False ''f.go:1'' [], None))
   \<and> Err e_empty_cause = Some (Foreign '''')
   \<and> (\<exists>b. MarshalJSON e_bad_utf8 = Inr (Inr b)
      \<and> UnmarshalJSON zeroError b =
          (Error ''invalid'' [CHR 0xEF, CHR 0xBF, CHR 0xBD] ''op'' None None False '''' [], None))
   \<and> Err e_bad_utf8 = None \<and> Message e_bad_utf8 = [CHR 0xFF]
   \<and> MarshalJSON e_blank_nil = Inl NilDereference"
proof -
  have z: "Err zeroError = None" "pcs zeroError = []"
    by (simp_all add: zeroError_def)
  have c: "coerce_utf8 ''invalid'' = ''invalid''" "coerce_utf8 ''m'' = ''m''"
    "coerce_utf8 ''op'' = ''op''" "coerce_utf8 ''f.go:1'' = ''f.go:1''"
    "coerce_utf8 [CHR 0xFF] = [CHR 0xEF, CHR 0xBF, CHR 0xBD]"
    by code_simp+
  have 1: "Err e_empty_cause = Some (Foreign '''')" "err_Error (Foreign '''') = Inr ''''"
    by (simp_all add: e_empty_cause_def)
  have "\<exists>b. MarshalJSON e_empty_cause = Inr (Inr b)
      \<and> UnmarshalJSON zeroError b =
          (Error ''invalid'' ''m'' ''op'' None None False ''f.go:1'' [], None)"
    using round_trip_cause [OF 1, of zeroError] c z
    by (simp add: e_empty_cause_def)
  moreover have 2: "Err e_bad_utf8 = None"
    by (simp add: e_bad_utf8_def)
  have "\<exists>b. MarshalJSON e_bad_utf8 = Inr (Inr b)
      \<and> UnmarshalJSON zeroError b =
          (Error ''invalid'' [CHR 0xEF, CHR 0xBF, CHR 0xBD] ''op'' None None False '''' [], None)"
    using round_trip_no_cause [OF 2, of zeroError] c z
    by (simp add: e_bad_utf8_def)
  moreover have "MarshalJSON e_blank_nil = Inl NilDereference"
    by (simp add: MarshalJSON_def e_blank_nil_def)
  ultimately show ?thesis
    using 1 2 by (simp add: e_bad_utf8_def)
qed

lemma Value_MarshalJSON: "Value e = MarshalJSON e"
proof (cases "Err e")
  case None
  then show ?thesis
    by (simp add: Value_def json_Marshal_Error_def MarshalJSON_no_cause json_Marshal_def)
next
  case (Some c)
  then show ?thesis
    by (cases "err_Error c")
      (simp_all add: Value_def json_Marshal_Error_def MarshalJSON_cause json_Marshal_def)
qed

lemma Scan_bytes: "Scan r (AnyBytes b) = UnmarshalJSON r b"
  by (cases b) (simp_all add: Scan_def json_Unmarshal_Error_def UnmarshalJSON_def json_Unmarshal_def)

lemma MarshalJSON_returns:
  assumes "\<not> ends_in_nil_pointer (Err e)"
  shows "\<exists>d. MarshalJSON e = Inr (Inr (JSONText d))"
proof (cases "Err e")
  case None
  then show ?thesis
    by (simp add: MarshalJSON_no_cause json_Marshal_def)
next
  case (Some c)
  with assms obtain t where "err_Error c = Inr t"
    using Error_returns(2) [of c] by auto
  with Some show ?thesis
    by (simp add: MarshalJSON_cause json_Marshal_def)
qed

lemma MarshalJSON_nil_pointer:
  assumes "ends_in_nil_pointer (Err e)"
  shows "MarshalJSON e = Inl NilDereference"
proof (cases "Err e")
  case None
  with assms show ?thesis
    by simp
next
  case (Some c)
  with assms have "\<nexists>t. err_Error c = Inr t"
    using Error_returns(2) [of c] by auto
  then obtain p where "err_Error c = Inl p"
    by (cases "err_Error c") auto
  moreover have "p = NilDereference"
    by (cases p) simp
  ultimately show ?thesis
    using Some by (simp add: MarshalJSON_cause)
qed

text \<open>
  C8. \<^verbatim>\<open>Scan(nil)\<close> returns no error and leaves the receiver as it is. \<^verbatim>\<open>Scan\<close> of a value
  that is not a \<^verbatim>\<open>[]byte\<close>, and of a nil \<^verbatim>\<open>[]byte\<close>, returns an error and leaves the
  receiver as it is. \<^verbatim>\<open>Value\<close> does what \<^verbatim>\<open>MarshalJSON\<close> does, and \<^verbatim>\<open>Scan\<close> of a non-nil
  \<^verbatim>\<open>[]byte\<close> does what \<^verbatim>\<open>UnmarshalJSON\<close> does with it; so \<^verbatim>\<open>Value\<close> followed by \<^verbatim>\<open>Scan\<close>
  into a fresh instance gives the fields the JSON round trip gives, and \<^verbatim>\<open>Value\<close>
  returns bytes whenever the chain of causes does not end in an interface that holds a
  nil \<^verbatim>\<open>*Error\<close> (where both \<^verbatim>\<open>Value\<close> and \<^verbatim>\<open>MarshalJSON\<close> panic).
\<close>

theorem C8_Scan_Value:
  "Scan e AnyNil = (e, None)
   \<and> Scan e (AnyOther ty) = (e, Some ScanNotSupported)
   \<and> Scan e AnyNilBytes = (e, Some ScanNotSupported)
   \<and> Value e = MarshalJSON e
   \<and> Scan r (AnyBytes b) = UnmarshalJSON r b
   \<and> (\<not> ends_in_nil_pointer (Err e) \<longrightarrow>
        (\<exists>d. Value e = Inr (Inr (JSONText d)) \<and> MarshalJSON e = Inr (Inr (JSONText d))
           \<and> Scan zeroError (AnyBytes (JSONText d)) = UnmarshalJSON zeroError (JSONText d)
           \<and> snd (Scan zeroError (AnyBytes (JSONText d))) = None))
   \<and> (ends_in_nil_pointer (Err e) \<longrightarrow>
        Value e = Inl NilDereference \<and> MarshalJSON e = Inl NilDereference)"
proof -
  have "\<exists>d. Value e = Inr (Inr (JSONText d)) \<and> MarshalJSON e = Inr (Inr (JSONText d))
           \<and> Scan zeroError (AnyBytes (JSONText d)) = UnmarshalJSON zeroError (JSONText d)
           \<and> snd (Scan zeroError (AnyBytes (JSONText d))) = None"
    if "\<not> ends_in_nil_pointer (Err e)"
  proof (cases "Err e")
    case None
    from round_trip_no_cause [OF this, of zeroError] MarshalJSON_returns [OF that]
    show ?thesis
      by (auto simp: Value_MarshalJSON Scan_bytes)
  next
    case (Some c)
    with that obtain t where "err_Error c = Inr t"
      using Error_returns(2) [of c] by auto
    from round_trip_cause [OF Some this, of zeroError] MarshalJSON_returns [OF that]
    show ?thesis
      by (auto simp: Value_MarshalJSON Scan_bytes)
  qed
  then show ?thesis
    using MarshalJSON_nil_pointer [of e]
    by (simp add: Value_MarshalJSON Scan_bytes) (simp add: Scan_def)
qed

theorem C8_Scan_Value_witness:
  "Scan e_reused AnyNil = (e_reused, None)
   \<and> Scan e_reused (AnyOther ''string'') = (e_reused, Some ScanNotSupported)
   \<and> (\<exists>b. Value e_invalid = Inr (Inr b)
        \<and> Scan zeroError (AnyBytes b) =
            (Error ''invalid'' ''bad input'' ''Parse'' None None False '''' [], None))
   \<and> Value e_blank_nil = Inl NilDereference"
proof -
  have 1: "Err e_invalid = None" "\<not> ends_in_nil_pointer (Err e_invalid)"
    "ends_in_nil_pointer (Err e_blank_nil)"
    by (simp_all add: e_invalid_def e_blank_nil_def)
  have z: "Err zeroError = None" "pcs zeroError = []"
    by (simp_all add: zeroError_def)
  have c: "coerce_utf8 ''invalid'' = ''invalid''" "coerce_utf8 ''bad input'' = ''bad input''"
    "coerce_utf8 ''Parse'' = ''Parse''"
    by code_simp+
  obtain b where b: "MarshalJSON e_invalid = Inr (Inr b)"
    "UnmarshalJSON zeroError b =
       (Error ''invalid'' ''bad input'' ''Parse'' None None False '''' [], None)"
    using round_trip_no_cause [OF 1(1), of zeroError] c z by (auto simp: e_invalid_def)
  have "Value e_invalid = Inr (Inr b)"
    using C8_Scan_Value [of e_invalid] b by simp
  moreover have "Scan zeroError (AnyBytes b) =
      (Error ''invalid'' ''bad input'' ''Parse'' None None False '''' [], None)"
    using C8_Scan_Value [of e_invalid _ zeroError b] b by simp
  moreover have "Value e_blank_nil = Inl NilDereference"
    using C8_Scan_Value [of e_blank_nil] 1 by blast
  moreover have "Scan e_reused AnyNil = (e_reused, None)"
    "Scan e_reused (AnyOther ''string'') = (e_reused, Some ScanNotSupported)"
    using C8_Scan_Value [of e_reused "''string''"] by blast+
  ultimately show ?thesis
    by blast
qed

lemma map_sum_id_Inr: "map_sum id f x = Inr y \<longleftrightarrow> (\<exists>z. x = Inr z \<and> y = f z)"
  by (cases x) auto

lemma wrappingError_field_Err:
  assumes "wrappingError_field k v w0 = Inr w" and "w_Err w0 = ''''"
    and "key_matches k ''error'' \<longrightarrow> v = JString '''' \<or> v = JNull"
  shows "w_Err w = ''''"
  using assms
  by (auto simp: wrappingError_field_def map_sum_id_Inr decode_string_def split: if_splits)

lemma decode_object_Err:
  assumes "decode_object wrappingError_field kvs w0 = Inr w" and "w_Err w0 = ''''"
    and "\<forall>(k, v) \<in> set kvs. key_matches k ''error'' \<longrightarrow> v = JString '''' \<or> v = JNull"
  shows "w_Err w = ''''"
  using assms
proof (induction kvs arbitrary: w0)
  case Nil
  then show ?case
    by simp
next
  case (Cons kv kvs)
  obtain k v where kv: "kv = (k, v)"
    by (cases kv)
  with Cons.prems(1) obtain w1 where w1: "wrappingError_field k v w0 = Inr w1"
    and rest: "decode_object wrappingError_field kvs w1 = Inr w"
    by (auto split: sum.splits)
  from Cons.prems(3) kv have "key_matches k ''error'' \<longrightarrow> v = JString '''' \<or> v = JNull"
    by simp
  with w1 Cons.prems(2) have "w_Err w1 = ''''"
    by (rule wrappingError_field_Err)
  with rest Cons.prems(3) show ?case
    by (intro Cons.IH) simp_all
qed

lemma UnmarshalJSON_success:
  "(\<exists>e'. UnmarshalJSON e data = (e', None)) \<longleftrightarrow> (\<exists>w. json_Unmarshal data = Inr w)"
  by (cases "json_Unmarshal data") (simp_all add: UnmarshalJSON_def)

text \<open>
  C10. When \<^verbatim>\<open>json.Unmarshal\<close> succeeds and finds no text for \<^verbatim>\<open>error\<close>, \<^verbatim>\<open>UnmarshalJSON\<close>
  returns nil and assigns code, message, operation, frames, the internal flag and the
  origin from the wire form, while the cause and \<^verbatim>\<open>pcs\<close> of the receiver stay as they
  were, whatever the receiver was. No text is found for every object in which each
  key that selects \<^verbatim>\<open>error\<close> has the empty string or \<^verbatim>\<open>null\<close> as its value, so also when
  there is no such key, and for the document \<^verbatim>\<open>null\<close>. \<^verbatim>\<open>UnmarshalJSON\<close> succeeds exactly
  when \<^verbatim>\<open>json.Unmarshal\<close> does, and leaves the receiver untouched when it fails.
\<close>

theorem C10_UnmarshalJSON_keeps_cause:
  "(json_Unmarshal data = Inr w \<and> w_Err w = '''' \<longrightarrow>
      UnmarshalJSON e data =
        (Error (w_Code w) (w_Message w) (w_Operation w) (Err e) (w_Additional w) (w_Internal w)
           (w_FileLine w) (pcs e),
         None))
   \<and> (json_Unmarshal (JSONText (JObject kvs)) = Inr w'
        \<and> (\<forall>(k, v) \<in> set kvs. key_matches k ''error'' \<longrightarrow> v = JString '''' \<or> v = JNull) \<longrightarrow>
      w_Err w' = ''''
      \<and> UnmarshalJSON e (JSONText (JObject kvs)) =
          (Error (w_Code w') (w_Message w') (w_Operation w') (Err e) (w_Additional w')
             (w_Internal w') (w_FileLine w') (pcs e),
           None))
   \<and> UnmarshalJSON e (JSONText JNull) = (Error '''' '''' '''' (Err e) None False '''' (pcs e), None)
   \<and> ((\<exists>e'. UnmarshalJSON e data = (e', None)) \<longleftrightarrow> (\<exists>w. json_Unmarshal data = Inr w))
   \<and> (\<forall>f. json_Unmarshal data = Inl f \<longrightarrow> UnmarshalJSON e data = (e, Some f))"
proof -
  have 1: "UnmarshalJSON e data =
        (Error (w_Code w) (w_Message w) (w_Operation w) (Err e) (w_Additional w) (w_Internal w)
           (w_FileLine w) (pcs e),
         None)"
    if "json_Unmarshal data = Inr w" "w_Err w = ''''" for data w
    using that by (simp add: UnmarshalJSON_def)
  have 2: "w_Err w' = ''''"
    if "json_Unmarshal (JSONText (JObject kvs)) = Inr w'"
      "\<forall>(k, v) \<in> set kvs. key_matches k ''error'' \<longrightarrow> v = JString '''' \<or> v = JNull"
  proof -
    from that(1) have "decode_object wrappingError_field kvs zero_wrappingError = Inr w'"
      by (simp add: json_Unmarshal_def)
    moreover have "w_Err zero_wrappingError = ''''"
      by (simp add: zero_wrappingError_def)
    ultimately show ?thesis
      using that(2) by (rule decode_object_Err)
  qed
  have 3: "UnmarshalJSON e (JSONText JNull)
      = (Error '''' '''' '''' (Err e) None False '''' (pcs e), None)"
    by (simp add: UnmarshalJSON_def json_Unmarshal_def zero_wrappingError_def)
  have 4: "UnmarshalJSON e data = (e, Some f)" if "json_Unmarshal data = Inl f" for f
    using that by (simp add: UnmarshalJSON_def)
  from 1 [of data w] 1 [of "JSONText (JObject kvs)" w'] 2 3 4 UnmarshalJSON_success [of e data]
  show ?thesis
    by blast
qed

theorem C10_UnmarshalJSON_keeps_cause_witness:
  "UnmarshalJSON e_reused
       (JSONText (JObject [(''code'', JString ''not_found''), (''message'', JString ''gone''),
                           (''error'', JString ''''), (''internal'', JBool False)]))
     = (Error ''not_found'' ''gone'' '''' (Some (Foreign ''EOF'')) None False ''''
          [0x4a1f20, 0x4a2c00],
        None)
   \<and> UnmarshalJSON e_reused (JSONText (JObject [(''Code'', JString ''expired'')]))
     = (Error ''expired'' '''' '''' (Some (Foreign ''EOF'')) None False '''' [0x4a1f20, 0x4a2c00],
        None)"
proof -
  let ?kvs = "[(''code'', JString ''not_found''), (''message'', JString ''gone''),
               (''error'', JString ''''), (''internal'', JBool False)]"
  let ?w = "\<lparr>w_Code = ''not_found'', w_Message = ''gone'', w_Operation = '''', w_Err = '''',
             w_FileLine = '''', w_Additional = None, w_Internal = False\<rparr>"
  have r: "Err e_reused = Some (Foreign ''EOF'')" "pcs e_reused = [0x4a1f20, 0x4a2c00]"
    by (simp_all add: e_reused_def)
  have k: "\<not> key_matches ''code'' ''error''" "\<not> key_matches ''message'' ''error''"
    "\<not> key_matches ''internal'' ''error''"
    by (simp_all only: key_matches_def foldName_names) simp_all
  have 1: "json_Unmarshal (JSONText (JObject ?kvs)) = Inr ?w"
    by (simp add: json_Unmarshal_def wrappingError_field_strings zero_wrappingError_def)
  have 2: "\<forall>(k, v) \<in> set ?kvs. key_matches k ''error'' \<longrightarrow> v = JString '''' \<or> v = JNull"
    using k by simp
  have "UnmarshalJSON e_reused (JSONText (JObject ?kvs)) =
      (Error (w_Code ?w) (w_Message ?w) (w_Operation ?w) (Err e_reused) (w_Additional ?w)
         (w_Internal ?w) (w_FileLine ?w) (pcs e_reused), None)"
    using C10_UnmarshalJSON_keeps_cause [where kvs = ?kvs and w' = ?w and e = e_reused] 1 2
    by blast
  then have a: "UnmarshalJSON e_reused (JSONText (JObject ?kvs))
     = (Error ''not_found'' ''gone'' '''' (Some (Foreign ''EOF'')) None False ''''
          [0x4a1f20, 0x4a2c00], None)"
    using r by simp
  let ?w2 = "\<lparr>w_Code = ''expired'', w_Message = '''', w_Operation = '''', w_Err = '''',
             w_FileLine = '''', w_Additional = None, w_Internal = False\<rparr>"
  have m: "key_matches ''Code'' ''code''"
    by code_simp
  have 3: "json_Unmarshal (JSONText (JObject [(''Code'', JString ''expired'')])) = Inr ?w2"
    using m
    by (simp add: json_Unmarshal_def wrappingError_field_def decode_string_def
        zero_wrappingError_def)
  have "UnmarshalJSON e_reused (JSONText (JObject [(''Code'', JString ''expired'')])) =
      (Error (w_Code ?w2) (w_Message ?w2) (w_Operation ?w2) (Err e_reused) (w_Additional ?w2)
         (w_Internal ?w2) (w_FileLine ?w2) (pcs e_reused), None)"
    using C10_UnmarshalJSON_keeps_cause
      [where data = "JSONText (JObject [(''Code'', JString ''expired'')])" and w = ?w2
         and e = e_reused] 3
    by simp
  then have "UnmarshalJSON e_reused (JSONText (JObject [(''Code'', JString ''expired'')]))
     = (Error ''expired'' '''' '''' (Some (Foreign ''EOF'')) None False '''' [0x4a1f20, 0x4a2c00],
        None)"
    using r by simp
  with a show ?thesis
    by simp
qed


end
